theory Spec2Isabelle
  imports Complex_Main "HOL-Library.Char_ord" "HOL-Library.List_Lexorder" "HOL-Library.Multiset"
begin

section \<open>The relational store of app.py\<close>

text \<open>
  The persistence layer of \<^verbatim>\<open>app.py\<close> works on one SQLite file with five tables.
  A table is modelled as the list of its rows, a row as a record with one field per
  column. Python strings are \<^typ>\<open>string\<close>, SQL \<^verbatim>\<open>NULL\<close> and Python \<^verbatim>\<open>None\<close> are
  \<^term>\<open>None\<close>. The declared columns of every table are part of the state
  (\<open>schema\<close>), because \<^verbatim>\<open>init_db\<close> reads and extends them.
\<close>

record user_row =
  u_email :: string
  u_name :: string
  u_role :: string
  u_password_hash :: "string option"

record project_row =
  p_project_id :: string
  p_email :: string
  p_project_title :: string
  p_timestamp :: string

record query_row =
  q_query_id :: string
  q_email :: string
  q_name :: string
  q_project_title :: string
  q_question :: string
  q_response :: string
  q_timestamp :: string
  q_feedback_rating :: "int option"

record mapping_row =
  m_student_email :: string
  m_project_title :: string
  m_mapped_timestamp :: string

record map_row =
  sp_student_id :: string
  sp_project_id :: string
  sp_timestamp :: string

record db =
  schema :: "(string \<times> string list) list"
  users :: "user_row list"
  projects :: "project_row list"
  queries :: "query_row list"
  student_project_mapping :: "mapping_row list"
  student_project_map :: "map_row list"

text \<open>A new database file: no table is declared and no row is stored.\<close>

definition empty_db :: db where
  "empty_db = \<lparr>schema = [], users = [], projects = [], queries = [],
     student_project_mapping = [], student_project_map = []\<rparr>"

text \<open>
  \<^verbatim>\<open>sqlite3.Error\<close>, the only exception class the repository functions catch by name;
  the string is \<^verbatim>\<open>str(e)\<close>. A statement on a table or column that is not declared
  raises \<open>OperationalError\<close>, a plain \<^verbatim>\<open>INSERT\<close> of a primary key that is stored
  already raises \<open>IntegrityError\<close>.
\<close>

datatype sqlite_error = OperationalError string | IntegrityError string

fun error_text :: "sqlite_error \<Rightarrow> string" where
  "error_text (OperationalError msg) = msg"
| "error_text (IntegrityError msg) = msg"

definition users_columns :: "string list" where
  "users_columns = [''email'', ''name'', ''role'', ''password_hash'']"

definition projects_columns :: "string list" where
  "projects_columns = [''project_id'', ''email'', ''project_title'', ''timestamp'']"

definition queries_columns :: "string list" where
  "queries_columns = [''query_id'', ''email'', ''name'', ''project_title'', ''question'',
     ''response'', ''timestamp'', ''feedback_rating'']"

definition mapping_columns :: "string list" where
  "mapping_columns = [''student_email'', ''project_title'', ''mapped_timestamp'']"

definition map_columns :: "string list" where
  "map_columns = [''student_id'', ''project_id'', ''timestamp'']"

text \<open>The statement names table \<open>t\<close> and its columns \<open>cols\<close>: both must be declared.\<close>

definition has_columns :: "db \<Rightarrow> string \<Rightarrow> string list \<Rightarrow> bool" where
  "has_columns d t cols =
     (case map_of (schema d) t of
        None \<Rightarrow> False
      | Some cs \<Rightarrow> list_all (\<lambda>c. c \<in> set cs) cols)"

text \<open>The error SQLite raises otherwise; \<open>ins\<close> marks an \<^verbatim>\<open>INSERT\<close> statement.\<close>

definition schema_error :: "bool \<Rightarrow> db \<Rightarrow> string \<Rightarrow> string list \<Rightarrow> sqlite_error" where
  "schema_error ins d t cols =
     (case map_of (schema d) t of
        None \<Rightarrow> OperationalError (''no such table: '' @ t)
      | Some cs \<Rightarrow>
          (case filter (\<lambda>c. c \<notin> set cs) cols of
             [] \<Rightarrow> OperationalError []
           | c # _ \<Rightarrow>
               OperationalError (if ins then ''table '' @ t @ '' has no column named '' @ c
                                 else ''no such column: '' @ c)))"

subsection \<open>Connections and transactions\<close>

text \<open>
  Every function opens its own connection with \<^verbatim>\<open>sqlite3.connect(DB_PATH)\<close>. The
  connection sees the stored database (\<open>committed\<close>) and writes into its own transaction
  (\<open>working\<close>); \<^verbatim>\<open>conn.commit()\<close> stores the transaction, and a connection that is closed
  or dropped without a commit leaves the stored database as it was. Whether the
  connection can be opened is not decided by the tables, so it is an input of the model:
  \<open>fault = Some msg\<close> says that \<^verbatim>\<open>sqlite3.connect\<close> raises an error with that text.
\<close>

record conn =
  committed :: db
  working :: db

definition connect :: "string option \<Rightarrow> db \<Rightarrow> sqlite_error + conn" where
  "connect fault d =
     (case fault of
        Some msg \<Rightarrow> Inl (OperationalError msg)
      | None \<Rightarrow> Inr \<lparr>committed = d, working = d\<rparr>)"

definition commit :: "conn \<Rightarrow> conn" where
  "commit c = c\<lparr>committed := working c\<rparr>"

text \<open>What a row-changing statement gives back: the cursor's \<^verbatim>\<open>rowcount\<close> and the connection.\<close>

type_synonym exec_result = "sqlite_error + (nat \<times> conn)"

definition execute_dml ::
  "bool \<Rightarrow> string \<Rightarrow> string list \<Rightarrow> (db \<Rightarrow> sqlite_error + (nat \<times> db)) \<Rightarrow> conn \<Rightarrow> exec_result" where
  "execute_dml ins t cols stmt c =
     (if \<not> has_columns (working c) t cols then Inl (schema_error ins (working c) t cols)
      else (case stmt (working c) of
              Inl e \<Rightarrow> Inl e
            | Inr (n, w) \<Rightarrow> Inr (n, c\<lparr>working := w\<rparr>)))"

text \<open>A \<^verbatim>\<open>SELECT\<close>: the rows it returns, in table order; nothing is written.\<close>

definition execute_select :: "string \<Rightarrow> string list \<Rightarrow> (db \<Rightarrow> 'a list) \<Rightarrow> conn \<Rightarrow> sqlite_error + 'a list" where
  "execute_select t cols sel c =
     (if \<not> has_columns (working c) t cols then Inl (schema_error False (working c) t cols)
      else Inr (sel (working c)))"

text \<open>\<^verbatim>\<open>cursor.fetchone()\<close>: the first row of the result, or \<^verbatim>\<open>None\<close>.\<close>

definition fetchone :: "'a list \<Rightarrow> 'a option" where
  "fetchone rows = (case rows of [] \<Rightarrow> None | r # _ \<Rightarrow> Some r)"

subsection \<open>get_project_title_for_student\<close>

text \<open>
  \<^verbatim>\<open>SELECT project_title FROM student_project_mapping WHERE student_email = ?\<close>,
  then \<^verbatim>\<open>result[0] if result else None\<close>; \<^verbatim>\<open>except sqlite3.Error: return None\<close>.
\<close>

definition select_mapping_title :: "string \<Rightarrow> db \<Rightarrow> string list" where
  "select_mapping_title e d =
     map m_project_title (filter (\<lambda>r. m_student_email r = e) (student_project_mapping d))"

definition get_project_title_for_student :: "string option \<Rightarrow> string \<Rightarrow> db \<Rightarrow> string option" where
  "get_project_title_for_student fault e d =
     (case connect fault d of
        Inl err \<Rightarrow> None
      | Inr c \<Rightarrow>
          (case execute_select ''student_project_mapping'' [''project_title'', ''student_email'']
                  (select_mapping_title e) c of
             Inl err \<Rightarrow> None
           | Inr rows \<Rightarrow> fetchone rows))"

subsection \<open>save_query\<close>

text \<open>
  What a call leaves behind: the value it returns to its caller, the notices it shows
  with \<^verbatim>\<open>st.error\<close>, and the stored database.
\<close>

record 'a outcome =
  returned :: 'a
  st_error :: "string list"
  store :: db

text \<open>
  The exceptions that pass an \<^verbatim>\<open>except sqlite3.Error\<close> clause, since they are no
  \<^verbatim>\<open>sqlite3.Error\<close>: \<^verbatim>\<open>pandas.errors.DatabaseError\<close>, into which \<^verbatim>\<open>pd.read_sql_query\<close>
  turns an error of its statement, and the \<^verbatim>\<open>OverflowError\<close> that the \<^verbatim>\<open>sqlite3\<close> module
  raises when it binds a Python integer outside SQLite's 64-bit \<^verbatim>\<open>INTEGER\<close>. The module
  prepares the statement first (a missing table or column is reported then), binds the
  parameters next and runs the statement last.
\<close>

datatype py_exception = DatabaseError sqlite_error | OverflowError string

definition fits_int64 :: "int \<Rightarrow> bool" where
  "fits_int64 x = (- (2 ^ 63) \<le> x \<and> x < 2 ^ 63)"

definition binds :: "int option \<Rightarrow> bool" where
  "binds v = (case v of None \<Rightarrow> True | Some x \<Rightarrow> fits_int64 x)"

definition int_too_large :: string where
  "int_too_large = ''Python int too large to convert to SQLite INTEGER''"

text \<open>
  \<^verbatim>\<open>save_query\<close> has no \<^verbatim>\<open>return\<close> statement: where it returns, it returns \<^verbatim>\<open>None\<close>
  (\<open>Some (ok, msg)\<close> would be the pair its sibling functions return). Its result is
  \<open>Inr\<close> of the value returned, or \<open>Inl\<close> of the exception that reaches the caller.
\<close>

text \<open>Python's \<^verbatim>\<open>x or y\<close> and \<^verbatim>\<open>not x\<close> on an optional string: \<^verbatim>\<open>None\<close> and \<^verbatim>\<open>''\<close> are false.\<close>

definition truthy :: "string option \<Rightarrow> bool" where
  "truthy s = (case s of None \<Rightarrow> False | Some v \<Rightarrow> v \<noteq> [])"

definition or_else :: "string option \<Rightarrow> string \<Rightarrow> string" where
  "or_else s dflt = (case s of None \<Rightarrow> dflt | Some v \<Rightarrow> if v = [] then dflt else v)"

definition same_query :: "string \<Rightarrow> string \<Rightarrow> string \<Rightarrow> query_row \<Rightarrow> bool" where
  "same_query e q ts r = (q_email r = e \<and> q_question r = q \<and> q_timestamp r = ts)"

text \<open>\<^verbatim>\<open>SELECT * FROM queries WHERE email = ? AND question = ? AND timestamp = ?\<close>\<close>

definition select_same_query :: "string \<Rightarrow> string \<Rightarrow> string \<Rightarrow> db \<Rightarrow> query_row list" where
  "select_same_query e q ts d = filter (same_query e q ts) (queries d)"

text \<open>\<^verbatim>\<open>INSERT INTO queries (...) VALUES (...)\<close>; \<open>query_id\<close> is the primary key.\<close>

definition insert_query :: "query_row \<Rightarrow> db \<Rightarrow> sqlite_error + (nat \<times> db)" where
  "insert_query r d =
     (if q_query_id r \<in> set (map q_query_id (queries d))
      then Inl (IntegrityError ''UNIQUE constraint failed: queries.query_id'')
      else Inr (1, d\<lparr>queries := queries d @ [r]\<rparr>))"

text \<open>
  \<open>uuid4\<close> is the string \<^verbatim>\<open>str(uuid.uuid4())\<close> drawn in this call, \<open>fault_inner\<close> the
  fault of the connection that the nested \<^verbatim>\<open>get_project_title_for_student\<close> opens.
\<close>

definition save_query_failed :: "db \<Rightarrow> (py_exception + (bool \<times> string) option) outcome" where
  "save_query_failed d =
     \<lparr>returned = Inr None, st_error = [''Failed to save query. Please try again.''],
      store = d\<rparr>"

definition save_query ::
  "string option \<Rightarrow> string option \<Rightarrow> string \<Rightarrow> string \<Rightarrow> string \<Rightarrow> string option \<Rightarrow> string \<Rightarrow> string \<Rightarrow> string
     \<Rightarrow> int option \<Rightarrow> db \<Rightarrow> (py_exception + (bool \<times> string) option) outcome" where
  "save_query fault fault_inner uuid4 e nm project_title question response ts rating d =
     (case connect fault d of
        Inl err \<Rightarrow> save_query_failed d
      | Inr c \<Rightarrow>
          (let query_id = uuid4;
               title = (if \<not> truthy project_title
                        then or_else (get_project_title_for_student fault_inner e d)
                               ''No Project Assigned''
                        else the project_title)
           in case execute_select ''queries'' [''email'', ''question'', ''timestamp'']
                     (select_same_query e question ts) c of
                Inl err \<Rightarrow> save_query_failed d
              | Inr rows \<Rightarrow>
                  (case fetchone rows of
                     Some r \<Rightarrow> \<lparr>returned = Inr None, st_error = [], store = committed c\<rparr>
                   | None \<Rightarrow>
                       (if has_columns (working c) ''queries'' queries_columns \<and> \<not> binds rating
                        then \<lparr>returned = Inl (OverflowError int_too_large), st_error = [],
                              store = committed c\<rparr>
                        else
                          (case execute_dml True ''queries'' queries_columns
                                  (insert_query \<lparr>q_query_id = query_id, q_email = e, q_name = nm,
                                     q_project_title = title, q_question = question,
                                     q_response = response, q_timestamp = ts,
                                     q_feedback_rating = rating\<rparr>) c of
                             Inl err \<Rightarrow> save_query_failed d
                           | Inr (n, c') \<Rightarrow>
                               \<lparr>returned = Inr None, st_error = [],
                                store = committed (commit c')\<rparr>)))))"

subsection \<open>Statements on the users table\<close>

text \<open>\<^verbatim>\<open>INSERT OR IGNORE INTO users\<close>: a row whose \<open>email\<close> is stored already is skipped.\<close>

definition insert_or_ignore_user :: "user_row \<Rightarrow> db \<Rightarrow> sqlite_error + (nat \<times> db)" where
  "insert_or_ignore_user r d =
     (if u_email r \<in> set (map u_email (users d)) then Inr (0, d)
      else Inr (1, d\<lparr>users := users d @ [r]\<rparr>))"

text \<open>\<^verbatim>\<open>INSERT OR REPLACE INTO users\<close>: the stored row of that \<open>email\<close> is deleted first.\<close>

definition insert_or_replace_user :: "user_row \<Rightarrow> db \<Rightarrow> sqlite_error + (nat \<times> db)" where
  "insert_or_replace_user r d =
     Inr (1, d\<lparr>users := filter (\<lambda>u. u_email u \<noteq> u_email r) (users d) @ [r]\<rparr>)"

text \<open>\<^verbatim>\<open>UPDATE users SET name = ?, role = ? WHERE email = ?\<close>\<close>

definition update_user_name_role :: "string \<Rightarrow> string \<Rightarrow> string \<Rightarrow> db \<Rightarrow> sqlite_error + (nat \<times> db)" where
  "update_user_name_role nm rl e d =
     Inr (length (filter (\<lambda>u. u_email u = e) (users d)),
          d\<lparr>users := map (\<lambda>u. if u_email u = e then u\<lparr>u_name := nm, u_role := rl\<rparr> else u) (users d)\<rparr>)"

text \<open>\<^verbatim>\<open>UPDATE users SET password_hash = ? WHERE email = ?\<close>\<close>

definition update_user_password :: "string \<Rightarrow> string \<Rightarrow> db \<Rightarrow> sqlite_error + (nat \<times> db)" where
  "update_user_password h e d =
     Inr (length (filter (\<lambda>u. u_email u = e) (users d)),
          d\<lparr>users := map (\<lambda>u. if u_email u = e then u\<lparr>u_password_hash := Some h\<rparr> else u) (users d)\<rparr>)"

text \<open>\<^verbatim>\<open>DELETE FROM users WHERE email = ?\<close>\<close>

definition delete_users :: "string \<Rightarrow> db \<Rightarrow> sqlite_error + (nat \<times> db)" where
  "delete_users e d =
     Inr (length (filter (\<lambda>u. u_email u = e) (users d)),
          d\<lparr>users := filter (\<lambda>u. u_email u \<noteq> e) (users d)\<rparr>)"

subsection \<open>init_db\<close>

text \<open>
  \<^verbatim>\<open>CREATE TABLE IF NOT EXISTS\<close>: a declared table is left alone, a new one is declared
  with its columns and holds no row (\<open>fresh\<close> empties the model's row list). The
  statement opens no transaction, and \<^verbatim>\<open>init_db\<close> runs it before any row is written,
  so it is stored at once.
\<close>

definition create_table_if_not_exists :: "string \<Rightarrow> string list \<Rightarrow> (db \<Rightarrow> db) \<Rightarrow> conn \<Rightarrow> conn" where
  "create_table_if_not_exists t cols fresh c =
     (case map_of (schema (working c)) t of
        Some cs \<Rightarrow> c
      | None \<Rightarrow>
          (let w = fresh ((working c)\<lparr>schema := schema (working c) @ [(t, cols)]\<rparr>)
           in \<lparr>committed = w, working = w\<rparr>))"

text \<open>\<^verbatim>\<open>PRAGMA table_info(users)\<close>, then \<^verbatim>\<open>[info[1] for info in c.fetchall()]\<close>.\<close>

definition table_info :: "db \<Rightarrow> string \<Rightarrow> string list" where
  "table_info d t = (case map_of (schema d) t of None \<Rightarrow> [] | Some cs \<Rightarrow> cs)"

text \<open>
  \<^verbatim>\<open>ALTER TABLE users ADD COLUMN password_hash TEXT\<close>: the column is declared last, and
  every stored row holds \<^verbatim>\<open>NULL\<close> in it.
\<close>

definition alter_users_add_password_hash :: "conn \<Rightarrow> conn" where
  "alter_users_add_password_hash c =
     (let w = (working c)
            \<lparr>schema := map (\<lambda>(t, cs). if t = ''users'' then (t, cs @ [''password_hash'']) else (t, cs))
                          (schema (working c)),
             users := map (\<lambda>u. u\<lparr>u_password_hash := None\<rparr>) (users (working c))\<rparr>
      in \<lparr>committed = w, working = w\<rparr>)"

definition init_db_failed :: "db \<Rightarrow> (bool \<times> string) option outcome" where
  "init_db_failed d =
     \<lparr>returned = None, st_error = [''Failed to initialize database. Please try again.''],
      store = d\<rparr>"

text \<open>
  \<open>hash_password\<close> is \<^verbatim>\<open>pbkdf2_sha256.hash\<close> with the salt it draws in this call: a
  parameter, since the library is not part of the repository.
\<close>

definition init_db :: "string option \<Rightarrow> (string \<Rightarrow> string) \<Rightarrow> db \<Rightarrow> (bool \<times> string) option outcome" where
  "init_db fault hash_password d =
     (case connect fault d of
        Inl err \<Rightarrow> init_db_failed d
      | Inr c0 \<Rightarrow>
          (let c1 = create_table_if_not_exists ''users'' users_columns (\<lambda>w. w\<lparr>users := []\<rparr>) c0;
               columns = table_info (working c1) ''users'';
               c2 = (if ''password_hash'' \<notin> set columns
                     then alter_users_add_password_hash c1 else c1);
               c3 = create_table_if_not_exists ''projects'' projects_columns
                      (\<lambda>w. w\<lparr>projects := []\<rparr>) c2;
               c4 = create_table_if_not_exists ''queries'' queries_columns
                      (\<lambda>w. w\<lparr>queries := []\<rparr>) c3;
               c5 = create_table_if_not_exists ''student_project_mapping'' mapping_columns
                      (\<lambda>w. w\<lparr>student_project_mapping := []\<rparr>) c4;
               c6 = create_table_if_not_exists ''student_project_map'' map_columns
                      (\<lambda>w. w\<lparr>student_project_map := []\<rparr>) c5;
               default_admin = \<lparr>u_email = ''admin@college.edu'', u_name = ''Jane Admin'',
                                u_role = ''admin'',
                                u_password_hash = Some (hash_password ''default123'')\<rparr>
           in case execute_dml True ''users'' users_columns
                     (insert_or_ignore_user default_admin) c6 of
                Inl err \<Rightarrow> init_db_failed (committed c6)
              | Inr (n, c7) \<Rightarrow>
                  \<lparr>returned = None, st_error = [], store = committed (commit c7)\<rparr>))"

subsection \<open>save_user, reset_user_password, delete_user\<close>

definition database_error :: "db \<Rightarrow> (bool \<times> string) outcome" where
  "database_error d =
     \<lparr>returned = (False, ''Database error. Please try again.''), st_error = [], store = d\<rparr>"

definition save_user ::
  "string option \<Rightarrow> (string \<Rightarrow> string) \<Rightarrow> string \<Rightarrow> string \<Rightarrow> string option \<Rightarrow> string \<Rightarrow> db
     \<Rightarrow> (bool \<times> string) outcome" where
  "save_user fault hash_password e nm password rl d =
     (case connect fault d of
        Inl err \<Rightarrow> database_error d
      | Inr c \<Rightarrow>
          (let password_hash = (if truthy password then Some (hash_password (the password))
                                else None)
           in case (if truthy password
                    then execute_dml True ''users'' users_columns
                           (insert_or_replace_user \<lparr>u_email = e, u_name = nm, u_role = rl,
                              u_password_hash = password_hash\<rparr>) c
                    else execute_dml False ''users'' [''name'', ''role'', ''email'']
                           (update_user_name_role nm rl e) c) of
                Inl err \<Rightarrow> database_error d
              | Inr (n, c') \<Rightarrow>
                  \<lparr>returned = (True, ''User saved successfully.''), st_error = [],
                   store = committed (commit c')\<rparr>))"

definition reset_user_password ::
  "string option \<Rightarrow> (string \<Rightarrow> string) \<Rightarrow> string \<Rightarrow> string \<Rightarrow> db \<Rightarrow> (bool \<times> string) outcome" where
  "reset_user_password fault hash_password e new_password d =
     (case connect fault d of
        Inl err \<Rightarrow> database_error d
      | Inr c \<Rightarrow>
          (let password_hash = hash_password new_password
           in case execute_dml False ''users'' [''password_hash'', ''email'']
                     (update_user_password password_hash e) c of
                Inl err \<Rightarrow> database_error d
              | Inr (rowcount, c') \<Rightarrow>
                  (if rowcount = 0
                   then \<lparr>returned = (False, ''User not found.''), st_error = [],
                         store = committed c'\<rparr>
                   else \<lparr>returned = (True, ''Password reset successfully.''), st_error = [],
                         store = committed (commit c')\<rparr>)))"

text \<open>The three clean-up statements of \<^verbatim>\<open>delete_user\<close>.\<close>

definition delete_mapping :: "string \<Rightarrow> db \<Rightarrow> sqlite_error + (nat \<times> db)" where
  "delete_mapping e d =
     Inr (length (filter (\<lambda>r. m_student_email r = e) (student_project_mapping d)),
          d\<lparr>student_project_mapping :=
               filter (\<lambda>r. m_student_email r \<noteq> e) (student_project_mapping d)\<rparr>)"

definition delete_queries :: "string \<Rightarrow> db \<Rightarrow> sqlite_error + (nat \<times> db)" where
  "delete_queries e d =
     Inr (length (filter (\<lambda>r. q_email r = e) (queries d)),
          d\<lparr>queries := filter (\<lambda>r. q_email r \<noteq> e) (queries d)\<rparr>)"

definition delete_projects :: "string \<Rightarrow> db \<Rightarrow> sqlite_error + (nat \<times> db)" where
  "delete_projects e d =
     Inr (length (filter (\<lambda>r. p_email r = e) (projects d)),
          d\<lparr>projects := filter (\<lambda>r. p_email r \<noteq> e) (projects d)\<rparr>)"

definition delete_user :: "string option \<Rightarrow> string \<Rightarrow> db \<Rightarrow> (bool \<times> string) outcome" where
  "delete_user fault e d =
     (case connect fault d of
        Inl err \<Rightarrow> database_error d
      | Inr c \<Rightarrow>
          (case execute_dml False ''users'' [''email''] (delete_users e) c of
             Inl err \<Rightarrow> database_error d
           | Inr (rowcount, c1) \<Rightarrow>
               (if rowcount = 0
                then \<lparr>returned = (False, ''User not found.''), st_error = [],
                      store = committed c1\<rparr>
                else
                  (case execute_dml False ''student_project_mapping'' [''student_email'']
                          (delete_mapping e) c1 of
                     Inl err \<Rightarrow> database_error d
                   | Inr (n2, c2) \<Rightarrow>
                       (case execute_dml False ''queries'' [''email''] (delete_queries e) c2 of
                          Inl err \<Rightarrow> database_error d
                        | Inr (n3, c3) \<Rightarrow>
                            (case execute_dml False ''projects'' [''email'']
                                    (delete_projects e) c3 of
                               Inl err \<Rightarrow> database_error d
                             | Inr (n4, c4) \<Rightarrow>
                                 \<lparr>returned = (True, ''User deleted successfully.''),
                                  st_error = [], store = committed (commit c4)\<rparr>))))))"

subsection \<open>save_project and the rating update\<close>

text \<open>\<^verbatim>\<open>INSERT INTO projects\<close>; \<open>project_id\<close> is the primary key.\<close>

definition insert_project :: "project_row \<Rightarrow> db \<Rightarrow> sqlite_error + (nat \<times> db)" where
  "insert_project r d =
     (if p_project_id r \<in> set (map p_project_id (projects d))
      then Inl (IntegrityError ''UNIQUE constraint failed: projects.project_id'')
      else Inr (1, d\<lparr>projects := projects d @ [r]\<rparr>))"

text \<open>\<^verbatim>\<open>INSERT OR IGNORE INTO projects\<close>\<close>

definition insert_or_ignore_project :: "project_row \<Rightarrow> db \<Rightarrow> sqlite_error + (nat \<times> db)" where
  "insert_or_ignore_project r d =
     (if p_project_id r \<in> set (map p_project_id (projects d)) then Inr (0, d)
      else Inr (1, d\<lparr>projects := projects d @ [r]\<rparr>))"

text \<open>\<^verbatim>\<open>INSERT INTO student_project_map\<close>; the primary key is \<open>(student_id, project_id)\<close>.\<close>

definition insert_map :: "map_row \<Rightarrow> db \<Rightarrow> sqlite_error + (nat \<times> db)" where
  "insert_map r d =
     (if (sp_student_id r, sp_project_id r)
           \<in> set (map (\<lambda>x. (sp_student_id x, sp_project_id x)) (student_project_map d))
      then Inl (IntegrityError
             ''UNIQUE constraint failed: student_project_map.student_id, student_project_map.project_id'')
      else Inr (1, d\<lparr>student_project_map := student_project_map d @ [r]\<rparr>))"

text \<open>\<^verbatim>\<open>INSERT OR REPLACE INTO student_project_mapping\<close>; \<open>student_email\<close> is the primary key.\<close>

definition insert_or_replace_mapping :: "mapping_row \<Rightarrow> db \<Rightarrow> sqlite_error + (nat \<times> db)" where
  "insert_or_replace_mapping r d =
     Inr (1, d\<lparr>student_project_mapping :=
                 filter (\<lambda>x. m_student_email x \<noteq> m_student_email r) (student_project_mapping d)
                 @ [r]\<rparr>)"

text \<open>
  \<open>now\<close> is \<^verbatim>\<open>datetime.now().strftime("%Y-%m-%d %H:%M:%S")\<close> and \<open>uuid4\<close> is
  \<^verbatim>\<open>str(uuid.uuid4())\<close>, as drawn in this call.
\<close>

definition save_project ::
  "string option \<Rightarrow> string \<Rightarrow> string \<Rightarrow> string \<Rightarrow> string \<Rightarrow> db \<Rightarrow> (bool \<times> string) outcome" where
  "save_project fault now uuid4 e project_title d =
     (case connect fault d of
        Inl err \<Rightarrow> database_error d
      | Inr c \<Rightarrow>
          (let ts = now; project_id = uuid4
           in case execute_dml True ''projects'' projects_columns
                     (insert_project \<lparr>p_project_id = project_id, p_email = e,
                        p_project_title = project_title, p_timestamp = ts\<rparr>) c of
                Inl err \<Rightarrow> database_error d
              | Inr (n1, c1) \<Rightarrow>
                  (case execute_dml True ''student_project_map'' map_columns
                          (insert_map \<lparr>sp_student_id = e, sp_project_id = project_id,
                             sp_timestamp = ts\<rparr>) c1 of
                     Inl err \<Rightarrow> database_error d
                   | Inr (n2, c2) \<Rightarrow>
                       (case execute_dml True ''student_project_mapping'' mapping_columns
                               (insert_or_replace_mapping \<lparr>m_student_email = e,
                                  m_project_title = project_title, m_mapped_timestamp = ts\<rparr>) c2 of
                          Inl err \<Rightarrow> database_error d
                        | Inr (n3, c3) \<Rightarrow>
                            \<lparr>returned = (True, ''Project saved successfully.''), st_error = [],
                             store = committed (commit c3)\<rparr>))))"

text \<open>
  The rating statement of the student page (lines 1032 to 1037):
  \<^verbatim>\<open>UPDATE queries SET feedback_rating = ? WHERE email = ? AND timestamp = ?\<close>, then a commit.
  An error goes to the page's \<^verbatim>\<open>except Exception\<close>, which shows it; this clause
  catches the \<^verbatim>\<open>OverflowError\<close> of a rating outside 64 bits as well. On the page the
  rating is the value of a slider from 1 to 5; here it is any integer.
\<close>

definition update_rating :: "int \<Rightarrow> string \<Rightarrow> string \<Rightarrow> db \<Rightarrow> sqlite_error + (nat \<times> db)" where
  "update_rating rating e ts d =
     Inr (length (filter (\<lambda>r. q_email r = e \<and> q_timestamp r = ts) (queries d)),
          d\<lparr>queries := map (\<lambda>r. if q_email r = e \<and> q_timestamp r = ts
                                  then r\<lparr>q_feedback_rating := Some rating\<rparr> else r) (queries d)\<rparr>)"

definition update_feedback_rating ::
  "string option \<Rightarrow> int \<Rightarrow> string \<Rightarrow> string \<Rightarrow> db \<Rightarrow> (bool \<times> string) option outcome" where
  "update_feedback_rating fault rating e ts d =
     (case connect fault d of
        Inl err \<Rightarrow>
          \<lparr>returned = None, st_error = [''Failed to process query: '' @ error_text err], store = d\<rparr>
      | Inr c \<Rightarrow>
          (if has_columns (working c) ''queries'' [''feedback_rating'', ''email'', ''timestamp'']
                \<and> \<not> fits_int64 rating
           then \<lparr>returned = None, st_error = [''Failed to process query: '' @ int_too_large],
                 store = d\<rparr>
           else
             (case execute_dml False ''queries'' [''feedback_rating'', ''email'', ''timestamp'']
                     (update_rating rating e ts) c of
                Inl err \<Rightarrow>
                  \<lparr>returned = None, st_error = [''Failed to process query: '' @ error_text err],
                   store = d\<rparr>
              | Inr (n, c') \<Rightarrow>
                  \<lparr>returned = None, st_error = [], store = committed (commit c')\<rparr>)))"

subsection \<open>get_available_projects and get_dashboard_stats\<close>

text \<open>
  \<^verbatim>\<open>SELECT DISTINCT project_title FROM student_project_mapping ORDER BY project_title\<close>;
  the order is SQLite's \<^verbatim>\<open>BINARY\<close> collation, the lexicographic order of the characters.
\<close>

definition select_distinct_titles :: "db \<Rightarrow> string list" where
  "select_distinct_titles d = sort (remdups (map m_project_title (student_project_mapping d)))"

definition get_available_projects :: "string option \<Rightarrow> db \<Rightarrow> string list" where
  "get_available_projects fault d =
     (case connect fault d of
        Inl err \<Rightarrow> []
      | Inr c \<Rightarrow>
          (case execute_select ''student_project_mapping'' [''project_title'']
                  select_distinct_titles c of
             Inl err \<Rightarrow> []
           | Inr rows \<Rightarrow> rows))"


text \<open>An aggregate \<^verbatim>\<open>SELECT\<close> returns one row; \<^verbatim>\<open>c.fetchone()[0]\<close> is its value.\<close>

definition execute_scalar :: "string \<Rightarrow> string list \<Rightarrow> (db \<Rightarrow> 'a) \<Rightarrow> conn \<Rightarrow> sqlite_error + 'a" where
  "execute_scalar t cols agg c =
     (if \<not> has_columns (working c) t cols then Inl (schema_error False (working c) t cols)
      else Inr (agg (working c)))"








subsection \<open>is_valid_email and Python's string helpers\<close>

text \<open>
  A Python string is the list of its characters. \<^verbatim>\<open>str.strip()\<close> removes the white
  space of \<^verbatim>\<open>str.isspace\<close> at both ends: tab to carriage return, the four separators
  \<^verbatim>\<open>0x1c\<close> to \<^verbatim>\<open>0x1f\<close>, the space, \<^verbatim>\<open>0x85\<close> and \<^verbatim>\<open>0xa0\<close>.
\<close>

definition py_isspace :: "char \<Rightarrow> bool" where
  "py_isspace c = (c \<in> set [CHR 0x09, CHR 0x0A, CHR 0x0B, CHR 0x0C, CHR 0x0D, CHR 0x1C,
                               CHR 0x1D, CHR 0x1E, CHR 0x1F, CHR 0x20, CHR 0x85, CHR 0xA0])"

definition strip :: "string \<Rightarrow> string" where
  "strip s = rev (dropWhile py_isspace (rev (dropWhile py_isspace s)))"

text \<open>\<^verbatim>\<open>str(n)\<close> of a count.\<close>

fun str_nat :: "nat \<Rightarrow> string" where
  "str_nat n = (if n < 10 then [''0123456789'' ! n]
                else str_nat (n div 10) @ [''0123456789'' ! (n mod 10)])"

declare str_nat.simps [simp del]

text \<open>
  The pattern \<^verbatim>\<open>^[a-zA-Z0-9_.+-]+@[a-zA-Z0-9-]+\.[a-zA-Z0-9-.]+$\<close> under \<^verbatim>\<open>re.match\<close>.
  Neither \<^verbatim>\<open>@\<close> nor the end belongs to the class before it, and the second class has
  no dot, so the longest run of each class is the only way to match; \<^verbatim>\<open>$\<close> also
  matches before a last line feed.
\<close>

definition is_alnum :: "char \<Rightarrow> bool" where
  "is_alnum c = ((CHR ''a'' \<le> c \<and> c \<le> CHR ''z'') \<or> (CHR ''A'' \<le> c \<and> c \<le> CHR ''Z'')
                 \<or> (CHR ''0'' \<le> c \<and> c \<le> CHR ''9''))"

definition local_char :: "char \<Rightarrow> bool" where
  "local_char c = (is_alnum c \<or> c \<in> set ''_.+-'')"

definition domain_char :: "char \<Rightarrow> bool" where
  "domain_char c = (is_alnum c \<or> c = CHR ''-'')"

definition tail_char :: "char \<Rightarrow> bool" where
  "tail_char c = (is_alnum c \<or> c \<in> set ''-.'')"

definition is_valid_email :: "string \<Rightarrow> bool" where
  "is_valid_email s =
     (takeWhile local_char s \<noteq> [] \<and>
      (case dropWhile local_char s of
         [] \<Rightarrow> False
       | a # r1 \<Rightarrow>
           a = CHR ''@'' \<and> takeWhile domain_char r1 \<noteq> [] \<and>
           (case dropWhile domain_char r1 of
              [] \<Rightarrow> False
            | b # r2 \<Rightarrow>
                b = CHR ''.'' \<and> takeWhile tail_char r2 \<noteq> [] \<and>
                (dropWhile tail_char r2 = [] \<or> dropWhile tail_char r2 = [CHR 0x0A]))))"

subsection \<open>bulk_register_users\<close>

text \<open>
  The uploaded file as \<^verbatim>\<open>csv.DictReader\<close> hands it over: \<open>Unreadable msg\<close> when reading
  or decoding raises, otherwise the field names (\<^verbatim>\<open>None\<close> for an empty file) and the
  rows. Of a row the function reads three keys; a cell is \<^verbatim>\<open>None\<close> where the line has
  fewer cells than the header.
\<close>

record csv_row =
  email_cell :: "string option"
  name_cell :: "string option"
  role_cell :: "string option"

datatype upload = Unreadable string | Parsed "string list option" "csv_row list"

text \<open>
  How a piece of a function body ends: it raises (the string is \<^verbatim>\<open>str(e)\<close>), it
  returns from the function, or it goes on.
\<close>

datatype 'a flow = Raise string | Return "bool \<times> string" | Next 'a

definition apostrophe :: string where
  "apostrophe = [CHR 0x27]"

definition none_has_no_strip :: string where
  "none_has_no_strip = apostrophe @ ''NoneType'' @ apostrophe @ '' object has no attribute ''
     @ apostrophe @ ''strip'' @ apostrophe"

definition none_not_iterable :: string where
  "none_not_iterable = ''argument of type '' @ apostrophe @ ''NoneType'' @ apostrophe
     @ '' is not iterable''"

text \<open>
  The \<^verbatim>\<open>for row in reader\<close> loop. \<open>i\<close> counts the rows, so that \<open>hash_password i\<close> is the
  salted hash drawn for row \<open>i\<close>; \<open>users_added\<close> is the loop's counter.
\<close>

fun register_rows ::
  "(nat \<Rightarrow> string \<Rightarrow> string) \<Rightarrow> nat \<Rightarrow> csv_row list \<Rightarrow> nat \<Rightarrow> conn \<Rightarrow> (nat \<times> conn) flow" where
  "register_rows hash_password i [] users_added c = Next (users_added, c)"
| "register_rows hash_password i (row # rows) users_added c =
     (case (email_cell row, name_cell row, role_cell row) of
        (Some e0, Some n0, Some r0) \<Rightarrow>
          (let e = strip e0; nm = strip n0; rl = strip r0
           in if e = [] \<or> nm = [] \<or> rl = [] then Return (False, ''Missing data in row: '' @ e)
              else if \<not> is_valid_email e then Return (False, ''Invalid email format: '' @ e)
              else if rl \<notin> set [''student'', ''admin'']
                then Return (False, ''Invalid role for '' @ e @ '': '' @ rl)
              else
                (let password = ''default123'';
                     password_hash = hash_password i password
                 in case execute_dml True ''users'' users_columns
                           (insert_or_ignore_user \<lparr>u_email = e, u_name = nm, u_role = rl,
                              u_password_hash = Some password_hash\<rparr>) c of
                      Inl err \<Rightarrow> Raise (error_text err)
                    | Inr (rowcount, c') \<Rightarrow>
                        register_rows hash_password (Suc i) rows
                          (if rowcount > 0 then users_added + 1 else users_added) c'))
      | _ \<Rightarrow> Raise none_has_no_strip)"

definition csv_error :: "string \<Rightarrow> db \<Rightarrow> (bool \<times> string) outcome" where
  "csv_error msg d =
     \<lparr>returned = (False, ''Error processing CSV: '' @ msg), st_error = [], store = d\<rparr>"

definition bulk_register_users ::
  "string option \<Rightarrow> (nat \<Rightarrow> string \<Rightarrow> string) \<Rightarrow> upload \<Rightarrow> db \<Rightarrow> (bool \<times> string) outcome" where
  "bulk_register_users fault hash_password csv_file d =
     (case connect fault d of
        Inl err \<Rightarrow> csv_error (error_text err) d
      | Inr c \<Rightarrow>
          (case csv_file of
             Unreadable msg \<Rightarrow> csv_error msg d
           | Parsed None rows \<Rightarrow> csv_error none_not_iterable d
           | Parsed (Some fieldnames) rows \<Rightarrow>
               (if \<not> list_all (\<lambda>col. col \<in> set fieldnames) [''email'', ''name'', ''role'']
                then \<lparr>returned = (False, ''CSV must contain '' @ apostrophe @ ''email'' @ apostrophe
                         @ '', '' @ apostrophe @ ''name'' @ apostrophe @ '', and '' @ apostrophe
                         @ ''role'' @ apostrophe @ '' columns.''),
                      st_error = [], store = committed c\<rparr>
                else
                  (case register_rows hash_password 0 rows 0 c of
                     Raise msg \<Rightarrow> csv_error msg d
                   | Return r \<Rightarrow> \<lparr>returned = r, st_error = [], store = committed c\<rparr>
                   | Next (users_added, c') \<Rightarrow>
                       \<lparr>returned = (True, str_nat users_added @ '' users registered successfully!''),
                        st_error = [], store = committed (commit c')\<rparr>))))"

subsection \<open>save_student_project_mapping\<close>

text \<open>
  The uploaded file as \<^verbatim>\<open>pd.read_csv\<close> hands it over: \<open>ReadError msg\<close> when it raises,
  otherwise the frame's column names and rows. Of a row the function reads two keys;
  a cell is \<^verbatim>\<open>None\<close> where pandas holds a missing value, and otherwise the
  \<^verbatim>\<open>str(...)\<close> of its value.
\<close>

record mapping_csv_row =
  student_id_cell :: "string option"
  project_title_cell :: "string option"

datatype frame_upload = ReadError string | Frame "string list" "mapping_csv_row list"

text \<open>\<^verbatim>\<open>str(row[...])\<close>; a missing value prints as \<^verbatim>\<open>nan\<close>.\<close>

definition str_cell :: "string option \<Rightarrow> string" where
  "str_cell v = (case v of None \<Rightarrow> ''nan'' | Some s \<Rightarrow> s)"

text \<open>
  The \<^verbatim>\<open>for _, row in df.iterrows()\<close> loop; \<open>uuid4 i\<close> is the identifier drawn for
  row \<open>i\<close>, \<open>ts\<close> the time stamp taken before the loop.
\<close>

fun map_rows ::
  "(nat \<Rightarrow> string) \<Rightarrow> string \<Rightarrow> nat \<Rightarrow> mapping_csv_row list \<Rightarrow> nat \<Rightarrow> conn \<Rightarrow> (nat \<times> conn) flow" where
  "map_rows uuid4 ts i [] mappings_added c = Next (mappings_added, c)"
| "map_rows uuid4 ts i (row # rows) mappings_added c =
     (let student_email = strip (str_cell (student_id_cell row));
          project_title = strip (str_cell (project_title_cell row))
      in if \<not> is_valid_email student_email
         then Return (False, ''Invalid email format: '' @ student_email)
         else
           (case execute_dml True ''student_project_mapping'' mapping_columns
                   (insert_or_replace_mapping \<lparr>m_student_email = student_email,
                      m_project_title = project_title, m_mapped_timestamp = ts\<rparr>) c of
              Inl err \<Rightarrow> Raise (error_text err)
            | Inr (n1, c1) \<Rightarrow>
                (let project_id = uuid4 i
                 in case execute_dml True ''projects'' projects_columns
                           (insert_or_ignore_project \<lparr>p_project_id = project_id,
                              p_email = student_email, p_project_title = project_title,
                              p_timestamp = ts\<rparr>) c1 of
                      Inl err \<Rightarrow> Raise (error_text err)
                    | Inr (n2, c2) \<Rightarrow>
                        map_rows uuid4 ts (Suc i) rows (mappings_added + 1) c2)))"

definition mapping_error :: "string \<Rightarrow> db \<Rightarrow> (bool \<times> string) outcome" where
  "mapping_error msg d =
     \<lparr>returned = (False, ''Error processing mapping file: '' @ msg), st_error = [], store = d\<rparr>"

definition save_student_project_mapping ::
  "string option \<Rightarrow> string \<Rightarrow> (nat \<Rightarrow> string) \<Rightarrow> frame_upload \<Rightarrow> db \<Rightarrow> (bool \<times> string) outcome" where
  "save_student_project_mapping fault now uuid4 csv_file d =
     (case connect fault d of
        Inl err \<Rightarrow> mapping_error (error_text err) d
      | Inr c \<Rightarrow>
          (case csv_file of
             ReadError msg \<Rightarrow> mapping_error msg d
           | Frame columns rows \<Rightarrow>
               (if \<not> list_all (\<lambda>col. col \<in> set columns) [''student_id'', ''project_title'']
                then \<lparr>returned = (False, ''CSV must contain '' @ apostrophe @ ''student_id''
                         @ apostrophe @ '' and '' @ apostrophe @ ''project_title'' @ apostrophe
                         @ '' columns.''),
                      st_error = [], store = committed c\<rparr>
                else if rows = []
                then \<lparr>returned = (False, ''CSV file is empty.''), st_error = [],
                      store = committed c\<rparr>
                else if list_ex (\<lambda>r. student_id_cell r = None) rows
                        \<or> list_ex (\<lambda>r. project_title_cell r = None) rows
                then \<lparr>returned = (False, ''CSV contains missing values in required columns.''),
                      st_error = [], store = committed c\<rparr>
                else
                  (let ts = now
                   in case map_rows uuid4 ts 0 rows 0 c of
                        Raise msg \<Rightarrow> mapping_error msg d
                      | Return r \<Rightarrow> \<lparr>returned = r, st_error = [], store = committed c\<rparr>
                      | Next (mappings_added, c') \<Rightarrow>
                          \<lparr>returned = (True, str_nat mappings_added
                              @ '' student-project mappings saved successfully!''),
                           st_error = [], store = committed (commit c')\<rparr>))))"

subsection \<open>export_query_logs_to_csv\<close>










subsection \<open>Reachable states\<close>

text \<open>
  The states the program can store: a new file, changed by any sequence of calls of
  the writing functions, with any arguments and any outcome of opening the connection.
  \<open>ok\<close> restricts the ratings that the callers pass to \<^verbatim>\<open>save_query\<close> and to the
  rating update; \<open>reachable\<close> restricts nothing.
\<close>

inductive reachable_when :: "(int option \<Rightarrow> bool) \<Rightarrow> db \<Rightarrow> bool" for ok where
  new_file: "reachable_when ok empty_db"
| by_init_db: "reachable_when ok d \<Longrightarrow> reachable_when ok (store (init_db fault h d))"
| by_save_user:
    "reachable_when ok d \<Longrightarrow> reachable_when ok (store (save_user fault h e nm pw rl d))"
| by_reset_user_password:
    "reachable_when ok d \<Longrightarrow> reachable_when ok (store (reset_user_password fault h e pw d))"
| by_save_query:
    "reachable_when ok d \<Longrightarrow> ok fr
       \<Longrightarrow> reachable_when ok (store (save_query fault fi u e nm pt q resp ts fr d))"
| by_save_project:
    "reachable_when ok d \<Longrightarrow> reachable_when ok (store (save_project fault now u e pt d))"
| by_delete_user: "reachable_when ok d \<Longrightarrow> reachable_when ok (store (delete_user fault e d))"
| by_bulk_register_users:
    "reachable_when ok d \<Longrightarrow> reachable_when ok (store (bulk_register_users fault hs f d))"
| by_save_student_project_mapping:
    "reachable_when ok d
       \<Longrightarrow> reachable_when ok (store (save_student_project_mapping fault now us g d))"
| by_update_feedback_rating:
    "reachable_when ok d \<Longrightarrow> ok (Some r)
       \<Longrightarrow> reachable_when ok (store (update_feedback_rating fault r e ts d))"

abbreviation reachable :: "db \<Rightarrow> bool" where
  "reachable \<equiv> reachable_when (\<lambda>v. True)"

text \<open>
  The five tables are declared with the columns the statements name, as after a run of
  \<^verbatim>\<open>init_db\<close> without an error.
\<close>

definition initialized :: "db \<Rightarrow> bool" where
  "initialized d =
     (has_columns d ''users'' users_columns \<and> has_columns d ''projects'' projects_columns
      \<and> has_columns d ''queries'' queries_columns
      \<and> has_columns d ''student_project_mapping'' mapping_columns
      \<and> has_columns d ''student_project_map'' map_columns)"

text \<open>
  A state to compute examples on: a new file after one run of \<^verbatim>\<open>init_db\<close>, with a
  stand-in for the salted hash.
\<close>

definition plain_hash :: "string \<Rightarrow> string" where
  "plain_hash password = ''$pbkdf2-sha256$'' @ password"

definition db0 :: db where
  "db0 = store (init_db None plain_hash empty_db)"

text \<open>
  A second state for examples: after \<open>db0\<close>, the student \<open>x@y.com\<close> is registered,
  submits the project "AI Tutor" and asks one question.
\<close>

definition db1 :: db where
  "db1 = store (save_query None None ''q-1'' ''x@y.com'' ''Xavier'' None
                  ''How do I write my resume?'' ''Start with a summary.''
                  ''2025-06-01 10:00:00'' None
           (store (save_project None ''2025-06-01 09:00:00'' ''p-1'' ''x@y.com'' ''AI Tutor''
             (store (save_user None plain_hash ''x@y.com'' ''Xavier'' (Some ''secret'')
                ''student'' db0)))))"

text \<open>
  The triple that \<^verbatim>\<open>save_query\<close> looks up before it inserts. A state is well keyed
  when no two users share an \<open>email\<close> (the primary key of \<open>users\<close>) and no two stored
  queries share the triple.
\<close>

definition query_key :: "query_row \<Rightarrow> string \<times> string \<times> string" where
  "query_key r = (q_email r, q_question r, q_timestamp r)"

definition well_keyed :: "db \<Rightarrow> bool" where
  "well_keyed d = (distinct (map u_email (users d)) \<and> distinct (map query_key (queries d)))"

text \<open>The invariant of the spec: a rating that is present lies between 1 and 5.\<close>

definition rating_ok :: "int option \<Rightarrow> bool" where
  "rating_ok v = (case v of None \<Rightarrow> True | Some x \<Rightarrow> 1 \<le> x \<and> x \<le> 5)"

definition ratings_in_range :: "db \<Rightarrow> bool" where
  "ratings_in_range d = list_all (\<lambda>r. rating_ok (q_feedback_rating r)) (queries d)"

section \<open>Properties\<close>

subsection \<open>Evaluation rules\<close>

lemma connect_None [simp]: "connect None d = Inr \<lparr>committed = d, working = d\<rparr>"
  by (simp add: connect_def)

lemma connect_Some [simp]: "connect (Some m) d = Inl (OperationalError m)"
  by (simp add: connect_def)

lemmas column_defs = users_columns_def projects_columns_def queries_columns_def
  mapping_columns_def map_columns_def

lemmas exec_defs = execute_dml_def execute_select_def execute_scalar_def has_columns_def
  commit_def fetchone_def binds_def fits_int64_def Let_def

lemma db0_value:
  "db0 = \<lparr>schema = [(''users'', users_columns), (''projects'', projects_columns),
                   (''queries'', queries_columns), (''student_project_mapping'', mapping_columns),
                   (''student_project_map'', map_columns)],
          users = [\<lparr>u_email = ''admin@college.edu'', u_name = ''Jane Admin'', u_role = ''admin'',
                    u_password_hash = Some (plain_hash ''default123'')\<rparr>],
          projects = [], queries = [], student_project_mapping = [], student_project_map = []\<rparr>"
  by (simp add: db0_def init_db_def empty_db_def create_table_if_not_exists_def table_info_def
      insert_or_ignore_user_def exec_defs column_defs)

lemma db0_initialized: "initialized db0"
  by (simp add: db0_value initialized_def has_columns_def column_defs)

lemmas stmt_defs = insert_or_ignore_user_def insert_or_replace_user_def update_user_name_role_def
  update_user_password_def delete_users_def delete_mapping_def delete_queries_def
  delete_projects_def insert_project_def insert_or_ignore_project_def insert_map_def
  insert_or_replace_mapping_def insert_query_def update_rating_def select_same_query_def
  select_mapping_title_def same_query_def

lemma db1_value:
  "db1 = \<lparr>schema = [(''users'', users_columns), (''projects'', projects_columns),
                   (''queries'', queries_columns), (''student_project_mapping'', mapping_columns),
                   (''student_project_map'', map_columns)],
          users = [\<lparr>u_email = ''admin@college.edu'', u_name = ''Jane Admin'', u_role = ''admin'',
                    u_password_hash = Some (plain_hash ''default123'')\<rparr>,
                   \<lparr>u_email = ''x@y.com'', u_name = ''Xavier'', u_role = ''student'',
                    u_password_hash = Some (plain_hash ''secret'')\<rparr>],
          projects = [\<lparr>p_project_id = ''p-1'', p_email = ''x@y.com'', p_project_title = ''AI Tutor'',
                       p_timestamp = ''2025-06-01 09:00:00''\<rparr>],
          queries = [\<lparr>q_query_id = ''q-1'', q_email = ''x@y.com'', q_name = ''Xavier'',
                      q_project_title = ''AI Tutor'', q_question = ''How do I write my resume?'',
                      q_response = ''Start with a summary.'', q_timestamp = ''2025-06-01 10:00:00'',
                      q_feedback_rating = None\<rparr>],
          student_project_mapping = [\<lparr>m_student_email = ''x@y.com'', m_project_title = ''AI Tutor'',
                       m_mapped_timestamp = ''2025-06-01 09:00:00''\<rparr>],
          student_project_map = [\<lparr>sp_student_id = ''x@y.com'', sp_project_id = ''p-1'',
                       sp_timestamp = ''2025-06-01 09:00:00''\<rparr>]\<rparr>"
  by (simp add: db1_def db0_value save_user_def save_project_def save_query_def
      get_project_title_for_student_def truthy_def or_else_def stmt_defs exec_defs column_defs)

lemma db1_initialized: "initialized db1"
  by (simp add: db1_value initialized_def has_columns_def column_defs)

subsection \<open>get_available_projects\<close>

lemma available_projects_cases:
  "get_available_projects fault d = [] \<or>
   (fault = None \<and> has_columns d ''student_project_mapping'' [''project_title''] \<and>
    get_available_projects fault d = sort (remdups (map m_project_title (student_project_mapping d))))"
  by (cases fault) (auto simp: get_available_projects_def execute_select_def select_distinct_titles_def)

text \<open>
  Claim C8, as the spec states it, fails: the list is read from \<open>student_project_mapping\<close>,
  which holds one row per student, and \<^verbatim>\<open>save_project\<close> replaces that row. After a
  student's title "AI Tutor" is replaced by "Robot Arm", the list is \<open>[Robot Arm]\<close>: a
  title that was mapped before is not in it.
\<close>

theorem get_available_projects_forgets_replaced_title:
  "get_available_projects None
     (store (save_project None ''2025-06-01 10:00:00'' ''id-1'' ''s@c.edu'' ''AI Tutor'' db0))
     = [''AI Tutor'']
   \<and> get_available_projects None
       (store (save_project None ''2025-06-02 10:00:00'' ''id-2'' ''s@c.edu'' ''Robot Arm''
          (store (save_project None ''2025-06-01 10:00:00'' ''id-1'' ''s@c.edu'' ''AI Tutor'' db0))))
       = [''Robot Arm'']"
  by (simp add: db0_value save_project_def get_available_projects_def select_distinct_titles_def
      insert_project_def insert_map_def insert_or_replace_mapping_def exec_defs column_defs)

text \<open>
  Claim C8, amended: \<^verbatim>\<open>get_available_projects\<close> returns the distinct, sorted list of the
  project titles that \<open>student_project_mapping\<close> holds now (each student's latest title),
  and the empty list when the storage fails.
\<close>

theorem get_available_projects_current:
  "distinct (get_available_projects fault d) \<and> sorted (get_available_projects fault d) \<and>
   set (get_available_projects fault d) =
     (if fault = None \<and> has_columns d ''student_project_mapping'' [''project_title'']
      then set (map m_project_title (student_project_mapping d)) else {})"
  using available_projects_cases[of fault d]
  by (cases fault) (auto simp: get_available_projects_def execute_select_def select_distinct_titles_def)

subsection \<open>Declared columns\<close>

lemma has_columns_subset:
  "has_columns d t cols \<Longrightarrow> set cols' \<subseteq> set cols \<Longrightarrow> has_columns d t cols'"
  by (auto simp: has_columns_def list_all_iff split: option.splits)

lemma has_columns_schema_cong:
  "schema d' = schema d \<Longrightarrow> has_columns d' t cols = has_columns d t cols"
  by (simp add: has_columns_def)


subsection \<open>save_user\<close>

lemma save_user_no_password:
  assumes "\<not> truthy password"
  shows "save_user fault h e nm password rl d =
     (if fault = None \<and> has_columns d ''users'' [''name'', ''role'', ''email'']
      then \<lparr>returned = (True, ''User saved successfully.''), st_error = [],
            store = d\<lparr>users := map (\<lambda>u. if u_email u = e then u\<lparr>u_name := nm, u_role := rl\<rparr> else u) (users d)\<rparr>\<rparr>
      else database_error d)"
  using assms
  by (cases fault) (simp_all add: save_user_def execute_dml_def update_user_name_role_def commit_def)

lemma map_upd_absent:
  "e \<notin> set (map u_email us) \<Longrightarrow> map (\<lambda>u. if u_email u = e then f u else u) us = us"
  by (induction us) auto

text \<open>
  Claim C9: \<^verbatim>\<open>save_user\<close> with the password omitted (\<^verbatim>\<open>None\<close> or the empty string)
  changes at most the \<open>name\<close> and \<open>role\<close> of the rows whose \<open>email\<close> matches: every
  \<open>password_hash\<close> and every \<open>email\<close> stays, and the other tables are untouched. When no
  row matches, the stored database is unchanged, and the call still returns
  \<open>(True, User saved successfully.)\<close> whenever the storage answers: the caller gets no
  not-found signal.
\<close>

theorem save_user_without_password:
  assumes "\<not> truthy password"
  shows "store (save_user fault h e nm password rl d) =
           (if fault = None \<and> has_columns d ''users'' [''name'', ''role'', ''email'']
            then d\<lparr>users := map (\<lambda>u. if u_email u = e then u\<lparr>u_name := nm, u_role := rl\<rparr> else u)
                               (users d)\<rparr>
            else d)
     \<and> map u_password_hash (users (store (save_user fault h e nm password rl d)))
         = map u_password_hash (users d)
     \<and> map u_email (users (store (save_user fault h e nm password rl d))) = map u_email (users d)
     \<and> (e \<notin> set (map u_email (users d)) \<longrightarrow> store (save_user fault h e nm password rl d) = d)
     \<and> (fault = None \<and> has_columns d ''users'' [''name'', ''role'', ''email'']
          \<longrightarrow> returned (save_user fault h e nm password rl d) = (True, ''User saved successfully.''))"
proof (cases "fault = None \<and> has_columns d ''users'' [''name'', ''role'', ''email'']")
  case True
  then have eq: "save_user fault h e nm password rl d =
      \<lparr>returned = (True, ''User saved successfully.''), st_error = [],
       store = d\<lparr>users := map (\<lambda>u. if u_email u = e then u\<lparr>u_name := nm, u_role := rl\<rparr> else u) (users d)\<rparr>\<rparr>"
    by (simp add: save_user_no_password[OF assms])
  have h1: "map u_password_hash (map (\<lambda>u. if u_email u = e then u\<lparr>u_name := nm, u_role := rl\<rparr> else u) (users d))
      = map u_password_hash (users d)"
    by (induction "users d") (auto simp: comp_def)
  have h2: "map u_email (map (\<lambda>u. if u_email u = e then u\<lparr>u_name := nm, u_role := rl\<rparr> else u) (users d))
      = map u_email (users d)"
    by (auto simp: comp_def)
  show ?thesis
    using True eq h1 h2 by (simp add: map_upd_absent del: map_map)
next
  case False
  have "save_user fault h e nm password rl d = database_error d"
    by (simp only: save_user_no_password[OF assms] False if_False)
  then show ?thesis
    by (simp only: False if_False) (simp add: database_error_def)
qed

text \<open>
  On the state after \<^verbatim>\<open>init_db\<close>: an unknown email changes nothing and reports success;
  renaming the administrator keeps the stored hash.
\<close>

theorem save_user_without_password_witness:
  "\<not> truthy None
   \<and> save_user None plain_hash ''nobody@college.edu'' ''Bob'' None ''student'' db0
       = \<lparr>returned = (True, ''User saved successfully.''), st_error = [], store = db0\<rparr>
   \<and> users (store (save_user None plain_hash ''admin@college.edu'' ''Jane Doe'' (Some []) ''admin'' db0))
       = [\<lparr>u_email = ''admin@college.edu'', u_name = ''Jane Doe'', u_role = ''admin'',
           u_password_hash = Some (plain_hash ''default123'')\<rparr>]"
proof -
  have t1: "\<not> truthy None" and t2: "\<not> truthy (Some [])"
    by (simp_all add: truthy_def)
  show ?thesis
    using save_user_without_password[OF t1, of None plain_hash "''nobody@college.edu''" "''Bob''" "''student''" db0]
      save_user_without_password[OF t2, of None plain_hash "''admin@college.edu''" "''Jane Doe''" "''admin''" db0]
    by (simp add: t1 db0_value save_user_def update_user_name_role_def exec_defs column_defs truthy_def)
qed

subsection \<open>delete_user\<close>

lemma filter_length_pos:
  "e \<in> set (map f xs) \<Longrightarrow> length (filter (\<lambda>u. f u = e) xs) \<noteq> 0"
  by (induction xs) auto

lemma filter_length_zero:
  "e \<notin> set (map f xs) \<Longrightarrow> length (filter (\<lambda>u. f u = e) xs) = 0"
  by (induction xs) auto

lemma delete_user_present:
  assumes "initialized d" "e \<in> set (map u_email (users d))"
  shows "delete_user None e d =
     \<lparr>returned = (True, ''User deleted successfully.''), st_error = [],
      store = d\<lparr>users := filter (\<lambda>u. u_email u \<noteq> e) (users d),
               student_project_mapping := filter (\<lambda>r. m_student_email r \<noteq> e) (student_project_mapping d),
               queries := filter (\<lambda>r. q_email r \<noteq> e) (queries d),
               projects := filter (\<lambda>r. p_email r \<noteq> e) (projects d)\<rparr>\<rparr>"
  using assms(1) filter_length_pos[OF assms(2)]
  by (auto simp: delete_user_def initialized_def exec_defs column_defs delete_users_def
      delete_mapping_def delete_queries_def delete_projects_def split: option.splits)

lemma delete_user_absent:
  assumes "initialized d" "e \<notin> set (map u_email (users d))"
  shows "delete_user None e d =
     \<lparr>returned = (False, ''User not found.''), st_error = [], store = d\<rparr>"
  using assms(1) filter_length_zero[OF assms(2)]
  by (auto simp: delete_user_def initialized_def exec_defs column_defs delete_users_def
      split: option.splits)

text \<open>
  Claim C2: on an initialised database whose connection opens, \<^verbatim>\<open>delete_user\<close> of a
  stored email returns \<open>(True, User deleted successfully.)\<close>, and afterwards no row of
  \<open>users\<close>, \<open>queries\<close>, \<open>student_project_mapping\<close> or \<open>projects\<close> carries that email; a
  second call returns \<open>(False, User not found.)\<close> and changes nothing. For an email that
  is not stored the call returns \<open>(False, User not found.)\<close> and the database stays as it
  was.
\<close>

theorem delete_user_cascade:
  assumes "initialized d"
  shows "(e \<in> set (map u_email (users d)) \<longrightarrow>
            (let d' = store (delete_user None e d)
             in returned (delete_user None e d) = (True, ''User deleted successfully.'')
                \<and> e \<notin> set (map u_email (users d'))
                \<and> e \<notin> set (map q_email (queries d'))
                \<and> e \<notin> set (map m_student_email (student_project_mapping d'))
                \<and> e \<notin> set (map p_email (projects d'))
                \<and> delete_user None e d'
                    = \<lparr>returned = (False, ''User not found.''), st_error = [], store = d'\<rparr>))
       \<and> (e \<notin> set (map u_email (users d)) \<longrightarrow>
            delete_user None e d
              = \<lparr>returned = (False, ''User not found.''), st_error = [], store = d\<rparr>)"
proof (cases "e \<in> set (map u_email (users d))")
  case True
  let ?d' = "d\<lparr>users := filter (\<lambda>u. u_email u \<noteq> e) (users d),
               student_project_mapping := filter (\<lambda>r. m_student_email r \<noteq> e) (student_project_mapping d),
               queries := filter (\<lambda>r. q_email r \<noteq> e) (queries d),
               projects := filter (\<lambda>r. p_email r \<noteq> e) (projects d)\<rparr>"
  have init': "initialized ?d'"
    using assms by (simp add: initialized_def has_columns_def)
  have gone: "e \<notin> set (map u_email (users ?d'))"
    by auto
  have second: "delete_user None e ?d' =
      \<lparr>returned = (False, ''User not found.''), st_error = [], store = ?d'\<rparr>"
    by (rule delete_user_absent[OF init' gone])
  show ?thesis
    using True second by (auto simp: delete_user_present[OF assms True] Let_def)
next
  case False
  then show ?thesis
    by (simp add: delete_user_absent[OF assms False])
qed

text \<open>
  On the state \<open>db1\<close>: deleting the student \<open>x@y.com\<close> leaves no row of that email, a
  second call reports not-found, and so does a call for an email that was never stored.
\<close>

theorem delete_user_cascade_witness:
  "initialized db1
   \<and> ''x@y.com'' \<in> set (map u_email (users db1))
   \<and> returned (delete_user None ''x@y.com'' db1) = (True, ''User deleted successfully.'')
   \<and> ''x@y.com'' \<notin> set (map u_email (users (store (delete_user None ''x@y.com'' db1))))
   \<and> ''x@y.com'' \<notin> set (map q_email (queries (store (delete_user None ''x@y.com'' db1))))
   \<and> ''x@y.com'' \<notin> set (map m_student_email
         (student_project_mapping (store (delete_user None ''x@y.com'' db1))))
   \<and> ''x@y.com'' \<notin> set (map p_email (projects (store (delete_user None ''x@y.com'' db1))))
   \<and> returned (delete_user None ''x@y.com'' (store (delete_user None ''x@y.com'' db1)))
       = (False, ''User not found.'')
   \<and> ''nobody@y.com'' \<notin> set (map u_email (users db1))
   \<and> delete_user None ''nobody@y.com'' db1
       = \<lparr>returned = (False, ''User not found.''), st_error = [], store = db1\<rparr>"
proof -
  have m1: "''x@y.com'' \<in> set (map u_email (users db1))"
    by (simp add: db1_value)
  have m2: "''nobody@y.com'' \<notin> set (map u_email (users db1))"
    by (simp add: db1_value)
  show ?thesis
    using delete_user_cascade[OF db1_initialized, of "''x@y.com''"]
      delete_user_cascade[OF db1_initialized, of "''nobody@y.com''"] m1 m2 db1_initialized
    by (simp add: Let_def)
qed

subsection \<open>get_dashboard_stats\<close>







subsection \<open>What each writing function does to the rows of queries\<close>

lemma execute_dml_committed:
  "execute_dml ins t cols stmt c = Inr (n, c') \<Longrightarrow> committed c' = committed c"
  by (auto simp: execute_dml_def split: if_splits sum.splits)

lemma register_rows_frame:
  "register_rows h i rows n c = Next (n', c') \<Longrightarrow>
     committed c' = committed c \<and> schema (working c') = schema (working c)
     \<and> projects (working c') = projects (working c) \<and> queries (working c') = queries (working c)
     \<and> student_project_mapping (working c') = student_project_mapping (working c)
     \<and> student_project_map (working c') = student_project_map (working c)"
proof (induction rows arbitrary: i n c)
  case Nil
  then show ?case by simp
next
  case (Cons row rows)
  from Cons.prems obtain c1 k where
    step: "register_rows h (Suc i) rows k c1 = Next (n', c')"
    and c1: "committed c1 = committed c \<and> schema (working c1) = schema (working c)
      \<and> projects (working c1) = projects (working c) \<and> queries (working c1) = queries (working c)
      \<and> student_project_mapping (working c1) = student_project_mapping (working c)
      \<and> student_project_map (working c1) = student_project_map (working c)"
    by (auto simp: Let_def execute_dml_def insert_or_ignore_user_def
        split: option.splits if_splits sum.splits prod.splits)
  from Cons.IH[OF step] c1 show ?case by simp
qed

lemma map_rows_frame:
  "map_rows us ts i rows n c = Next (n', c') \<Longrightarrow>
     committed c' = committed c \<and> schema (working c') = schema (working c)
     \<and> users (working c') = users (working c) \<and> queries (working c') = queries (working c)
     \<and> student_project_map (working c') = student_project_map (working c)"
proof (induction rows arbitrary: i n c)
  case Nil
  then show ?case by simp
next
  case (Cons row rows)
  from Cons.prems obtain c1 k where
    step: "map_rows us ts (Suc i) rows k c1 = Next (n', c')"
    and c1: "committed c1 = committed c \<and> schema (working c1) = schema (working c)
      \<and> users (working c1) = users (working c) \<and> queries (working c1) = queries (working c)
      \<and> student_project_map (working c1) = student_project_map (working c)"
    by (auto simp: Let_def execute_dml_def insert_or_replace_mapping_def insert_or_ignore_project_def
        split: option.splits if_splits sum.splits prod.splits)
  from Cons.IH[OF step] c1 show ?case by simp
qed

lemma bulk_register_users_queries:
  "queries (store (bulk_register_users fault hs f d)) = queries d"
proof (cases fault)
  case (Some m)
  then show ?thesis by (simp add: bulk_register_users_def csv_error_def)
next
  case None
  show ?thesis
  proof (cases f)
    case (Unreadable msg)
    with None show ?thesis by (simp add: bulk_register_users_def csv_error_def)
  next
    case (Parsed fn rows)
    show ?thesis
    proof (cases "register_rows hs 0 rows 0 \<lparr>committed = d, working = d\<rparr>")
      case (Raise m)
      with None Parsed show ?thesis
        by (simp add: bulk_register_users_def csv_error_def split: option.splits)
    next
      case (Return r)
      with None Parsed show ?thesis
        by (simp add: bulk_register_users_def csv_error_def split: option.splits)
    next
      case (Next p)
      obtain n' c' where p: "p = (n', c')" by (cases p)
      from register_rows_frame[OF Next[unfolded p]] None Parsed Next p show ?thesis
        by (simp add: bulk_register_users_def csv_error_def commit_def split: option.splits)
    qed
  qed
qed

lemma save_student_project_mapping_queries:
  "queries (store (save_student_project_mapping fault now us g d)) = queries d"
proof (cases fault)
  case (Some m)
  then show ?thesis by (simp add: save_student_project_mapping_def mapping_error_def)
next
  case None
  show ?thesis
  proof (cases g)
    case (ReadError msg)
    with None show ?thesis by (simp add: save_student_project_mapping_def mapping_error_def)
  next
    case (Frame cols rows)
    show ?thesis
    proof (cases "map_rows us now 0 rows 0 \<lparr>committed = d, working = d\<rparr>")
      case (Raise m)
      with None Frame show ?thesis
        by (simp add: save_student_project_mapping_def mapping_error_def)
    next
      case (Return r)
      with None Frame show ?thesis
        by (simp add: save_student_project_mapping_def mapping_error_def)
    next
      case (Next p)
      obtain n' c' where p: "p = (n', c')" by (cases p)
      from map_rows_frame[OF Next[unfolded p]] None Frame Next p show ?thesis
        by (simp add: save_student_project_mapping_def mapping_error_def commit_def)
    qed
  qed
qed


lemma create_table_keeps:
  assumes "P (working c)" and "committed c = working c"
    and "\<And>w. P w \<Longrightarrow> P (fresh (w\<lparr>schema := schema w @ [(t, cols)]\<rparr>))"
  shows "P (working (create_table_if_not_exists t cols fresh c))
       \<and> committed (create_table_if_not_exists t cols fresh c)
           = working (create_table_if_not_exists t cols fresh c)"
  using assms by (simp add: create_table_if_not_exists_def Let_def split: option.splits)

lemma init_db_keeps:
  assumes d: "P d"
    and sch: "\<And>w s. P w \<Longrightarrow> P (w\<lparr>schema := s\<rparr>)"
    and t1: "\<And>w. P w \<Longrightarrow> P (w\<lparr>users := []\<rparr>)"
    and t2: "\<And>w. P w \<Longrightarrow> P (w\<lparr>projects := []\<rparr>)"
    and t3: "\<And>w. P w \<Longrightarrow> P (w\<lparr>queries := []\<rparr>)"
    and t4: "\<And>w. P w \<Longrightarrow> P (w\<lparr>student_project_mapping := []\<rparr>)"
    and t5: "\<And>w. P w \<Longrightarrow> P (w\<lparr>student_project_map := []\<rparr>)"
    and alt: "\<And>w. P w \<Longrightarrow> P (w\<lparr>users := map (\<lambda>u. u\<lparr>u_password_hash := None\<rparr>) (users w)\<rparr>)"
    and ins: "\<And>w u. P w \<Longrightarrow> u_email u \<notin> set (map u_email (users w))
                \<Longrightarrow> P (w\<lparr>users := users w @ [u]\<rparr>)"
  shows "P (store (init_db fault h d))"
proof (cases fault)
  case (Some m)
  with d show ?thesis by (simp add: init_db_def init_db_failed_def)
next
  case None
  define c0 where "c0 = \<lparr>committed = d, working = d\<rparr>"
  define c1 where "c1 = create_table_if_not_exists ''users'' users_columns (\<lambda>w. w\<lparr>users := []\<rparr>) c0"
  define c2 where "c2 = (if ''password_hash'' \<notin> set (table_info (working c1) ''users'')
                         then alter_users_add_password_hash c1 else c1)"
  define c3 where "c3 = create_table_if_not_exists ''projects'' projects_columns
                      (\<lambda>w. w\<lparr>projects := []\<rparr>) c2"
  define c4 where "c4 = create_table_if_not_exists ''queries'' queries_columns
                      (\<lambda>w. w\<lparr>queries := []\<rparr>) c3"
  define c5 where "c5 = create_table_if_not_exists ''student_project_mapping'' mapping_columns
                      (\<lambda>w. w\<lparr>student_project_mapping := []\<rparr>) c4"
  define c6 where "c6 = create_table_if_not_exists ''student_project_map'' map_columns
                      (\<lambda>w. w\<lparr>student_project_map := []\<rparr>) c5"
  have p0: "P (working c0) \<and> committed c0 = working c0"
    using d by (simp add: c0_def)
  have p1: "P (working c1) \<and> committed c1 = working c1"
    unfolding c1_def using p0 by (intro create_table_keeps) (simp_all add: sch t1)
  have p2: "P (working c2) \<and> committed c2 = working c2"
  proof (cases "''password_hash'' \<notin> set (table_info (working c1) ''users'')")
    case True
    from p1 have "P ((working c1)\<lparr>schema :=
        map (\<lambda>(t, cs). if t = ''users'' then (t, cs @ [''password_hash'']) else (t, cs))
          (schema (working c1))\<rparr>)"
      by (simp add: sch)
    from alt[OF this] True show ?thesis
      by (simp add: c2_def alter_users_add_password_hash_def Let_def)
  next
    case False
    with p1 show ?thesis by (simp add: c2_def)
  qed
  have p3: "P (working c3) \<and> committed c3 = working c3"
    unfolding c3_def using p2 by (intro create_table_keeps) (simp_all add: sch t2)
  have p4: "P (working c4) \<and> committed c4 = working c4"
    unfolding c4_def using p3 by (intro create_table_keeps) (simp_all add: sch t3)
  have p5: "P (working c5) \<and> committed c5 = working c5"
    unfolding c5_def using p4 by (intro create_table_keeps) (simp_all add: sch t4)
  have p6: "P (working c6) \<and> committed c6 = working c6"
    unfolding c6_def using p5 by (intro create_table_keeps) (simp_all add: sch t5)
  have eq: "init_db None h d =
     (case execute_dml True ''users'' users_columns
               (insert_or_ignore_user \<lparr>u_email = ''admin@college.edu'', u_name = ''Jane Admin'',
                                u_role = ''admin'',
                                u_password_hash = Some (h ''default123'')\<rparr>) c6 of
        Inl err \<Rightarrow> init_db_failed (committed c6)
      | Inr (n, c7) \<Rightarrow> \<lparr>returned = None, st_error = [], store = committed (commit c7)\<rparr>)"
    unfolding c6_def c5_def c4_def c3_def c2_def c1_def c0_def init_db_def Let_def connect_None
    by simp
  show ?thesis
    unfolding None eq using p6
    by (auto simp: execute_dml_def insert_or_ignore_user_def init_db_failed_def commit_def ins
        split: sum.splits prod.splits if_splits)
qed

lemma init_db_queries:
  "queries (store (init_db fault h d)) = queries d \<or> queries (store (init_db fault h d)) = []"
  by (rule init_db_keeps[where P = "\<lambda>w. queries w = queries d \<or> queries w = []"]) simp_all

lemma save_user_queries: "queries (store (save_user fault h e nm pw rl d)) = queries d"
  by (cases fault)
     (auto simp: save_user_def database_error_def execute_dml_def commit_def Let_def
        insert_or_replace_user_def update_user_name_role_def split: sum.splits prod.splits if_splits)

lemma reset_user_password_queries:
  "queries (store (reset_user_password fault h e pw d)) = queries d"
  by (cases fault)
     (auto simp: reset_user_password_def database_error_def execute_dml_def commit_def Let_def
        update_user_password_def split: sum.splits prod.splits if_splits)

lemma save_project_queries: "queries (store (save_project fault now u e pt d)) = queries d"
  by (cases fault)
     (auto simp: save_project_def database_error_def execute_dml_def commit_def Let_def
        insert_project_def insert_map_def insert_or_replace_mapping_def
        split: sum.splits prod.splits if_splits)

lemma delete_user_queries:
  "queries (store (delete_user fault e d)) = queries d
   \<or> queries (store (delete_user fault e d)) = filter (\<lambda>r. q_email r \<noteq> e) (queries d)"
  by (cases fault)
     (auto simp: delete_user_def database_error_def execute_dml_def commit_def Let_def
        delete_users_def delete_mapping_def delete_queries_def delete_projects_def
        split: sum.splits prod.splits if_splits)

lemma save_query_queries:
  "queries (store (save_query fault fi u e nm pt q resp ts fr d)) = queries d
   \<or> (binds fr \<and> filter (same_query e q ts) (queries d) = []
      \<and> (\<exists>t. queries (store (save_query fault fi u e nm pt q resp ts fr d)) = queries d @
        [\<lparr>q_query_id = u, q_email = e, q_name = nm, q_project_title = t, q_question = q,
          q_response = resp, q_timestamp = ts, q_feedback_rating = fr\<rparr>]))"
  by (cases fault)
     (auto simp: save_query_def save_query_failed_def execute_dml_def execute_select_def
        commit_def fetchone_def Let_def insert_query_def select_same_query_def
        split: option.splits sum.splits if_splits prod.splits list.splits)

lemma update_feedback_rating_queries:
  "queries (store (update_feedback_rating fault r e ts d)) = queries d
   \<or> (fits_int64 r \<and> queries (store (update_feedback_rating fault r e ts d)) =
       map (\<lambda>x. if q_email x = e \<and> q_timestamp x = ts then x\<lparr>q_feedback_rating := Some r\<rparr> else x) (queries d))"
  by (cases fault)
     (auto simp: update_feedback_rating_def execute_dml_def commit_def Let_def update_rating_def
        split: option.splits sum.splits if_splits prod.splits)


subsection \<open>The range of feedback_rating\<close>

text \<open>
  Claim C7, as the spec states it, fails: \<^verbatim>\<open>save_query\<close> binds its \<open>feedback_rating\<close>
  argument into the \<^verbatim>\<open>INSERT\<close> without looking at it. Called with the rating 7 on
  \<open>db1\<close>, whose ratings are in range, it stores 7.
\<close>

theorem save_query_stores_rating_out_of_range:
  "map q_feedback_rating (queries (store
      (save_query None None ''q-2'' ''x@y.com'' ''Xavier'' (Some ''AI Tutor'') ''Another question''
         ''An answer.'' ''2025-06-02 10:00:00'' (Some 7) db1)))
     = [None, Some 7]
   \<and> ratings_in_range db1
   \<and> \<not> ratings_in_range (store
      (save_query None None ''q-2'' ''x@y.com'' ''Xavier'' (Some ''AI Tutor'') ''Another question''
         ''An answer.'' ''2025-06-02 10:00:00'' (Some 7) db1))"
  by (simp add: db1_value save_query_def ratings_in_range_def rating_ok_def truthy_def
      stmt_defs exec_defs column_defs)

lemma ratings_in_range_reachable: "reachable_when rating_ok d \<Longrightarrow> ratings_in_range d"
proof (induction rule: reachable_when.induct)
  case new_file
  show ?case by (simp add: ratings_in_range_def empty_db_def)
next
  case (by_init_db d fault h)
  with init_db_queries[of fault h d] show ?case by (auto simp: ratings_in_range_def)
next
  case (by_save_user d fault h e nm pw rl)
  then show ?case by (simp add: ratings_in_range_def save_user_queries)
next
  case (by_reset_user_password d fault h e pw)
  then show ?case by (simp add: ratings_in_range_def reset_user_password_queries)
next
  case (by_save_query d fr fault fi u e nm pt q resp ts)
  with save_query_queries[of fault fi u e nm pt q resp ts fr d] show ?case
    by (auto simp: ratings_in_range_def)
next
  case (by_save_project d fault now u e pt)
  then show ?case by (simp add: ratings_in_range_def save_project_queries)
next
  case (by_delete_user d fault e)
  with delete_user_queries[of fault e d] show ?case
    by (auto simp: ratings_in_range_def list_all_iff)
next
  case (by_bulk_register_users d fault hs f)
  then show ?case by (simp add: ratings_in_range_def bulk_register_users_queries)
next
  case (by_save_student_project_mapping d fault now us g)
  then show ?case by (simp add: ratings_in_range_def save_student_project_mapping_queries)
next
  case (by_update_feedback_rating d r fault e ts)
  with update_feedback_rating_queries[of fault r e ts d] show ?case
    by (auto simp: ratings_in_range_def list_all_iff)
qed

lemma update_feedback_rating_stores:
  assumes "has_columns d ''queries'' [''feedback_rating'', ''email'', ''timestamp'']" "fits_int64 r"
  shows "queries (store (update_feedback_rating None r e ts d))
       = map (\<lambda>x. if q_email x = e \<and> q_timestamp x = ts then x\<lparr>q_feedback_rating := Some r\<rparr> else x)
           (queries d)"
  using assms
  by (simp add: update_feedback_rating_def execute_dml_def update_rating_def commit_def)

lemma save_query_stores:
  assumes "has_columns d ''queries'' queries_columns"
    "filter (same_query e q ts) (queries d) = []"
    "u \<notin> set (map q_query_id (queries d))" "binds fr"
  shows "queries (store (save_query None fi u e nm pt q resp ts fr d)) = queries d @
      [\<lparr>q_query_id = u, q_email = e, q_name = nm,
        q_project_title = (if \<not> truthy pt
           then or_else (get_project_title_for_student fi e d) ''No Project Assigned''
           else the pt),
        q_question = q, q_response = resp, q_timestamp = ts, q_feedback_rating = fr\<rparr>]"
proof -
  have h: "has_columns d ''queries'' [''email'', ''question'', ''timestamp'']"
    by (rule has_columns_subset[OF assms(1)]) (simp add: queries_columns_def)
  show ?thesis
    using assms h
    by (simp add: save_query_def execute_select_def execute_dml_def select_same_query_def
        fetchone_def insert_query_def commit_def Let_def)
qed

lemma update_feedback_rating_overflow:
  "\<not> fits_int64 r \<Longrightarrow> store (update_feedback_rating fault r e ts d) = d"
  by (cases fault) (auto simp: update_feedback_rating_def execute_dml_def split: sum.splits)

lemma save_query_overflow:
  "\<not> binds fr \<Longrightarrow> store (save_query fault fi u e nm pt q resp ts fr d) = d"
  by (cases fault)
     (auto simp: save_query_def save_query_failed_def execute_select_def execute_dml_def
        Let_def split: sum.splits option.splits)

lemma save_query_raises:
  assumes "has_columns d ''queries'' queries_columns"
    "filter (same_query e q ts) (queries d) = []" "\<not> binds fr"
  shows "save_query None fi u e nm pt q resp ts fr d
       = \<lparr>returned = Inl (OverflowError int_too_large), st_error = [], store = d\<rparr>"
proof -
  have h: "has_columns d ''queries'' [''email'', ''question'', ''timestamp'']"
    by (rule has_columns_subset[OF assms(1)]) (simp add: queries_columns_def)
  show ?thesis
    using assms h
    by (simp add: save_query_def execute_select_def select_same_query_def fetchone_def Let_def)
qed

text \<open>
  Claim C7, amended. In every state reached by calls whose ratings are absent or lie
  in 1..5, every rating that is present lies in 1..5. The two writers do not keep the
  range for every integer. The rating \<^verbatim>\<open>UPDATE\<close>, given a rating that fits 64 bits,
  sets the rating of every row of that email and time stamp to the integer given and
  leaves the other rows alone, so a rating outside 1..5 that meets a row breaks the
  range. \<^verbatim>\<open>save_query\<close>, when it inserts (no row of the triple, a new identifier) a
  rating that is absent or fits 64 bits, appends the row with the rating as given, so a
  rating outside 1..5 breaks the range. An integer outside 64 bits is stored by neither:
  the database stays as it was, and \<^verbatim>\<open>save_query\<close> raises \<^verbatim>\<open>OverflowError\<close> when it
  comes to the \<^verbatim>\<open>INSERT\<close>.
\<close>

theorem rating_range_depends_on_callers:
  "(reachable_when rating_ok d \<longrightarrow> ratings_in_range d)
   \<and> (has_columns d ''queries'' [''feedback_rating'', ''email'', ''timestamp''] \<and> fits_int64 r
        \<longrightarrow> queries (store (update_feedback_rating None r e ts d))
            = map (\<lambda>x. if q_email x = e \<and> q_timestamp x = ts
                        then x\<lparr>q_feedback_rating := Some r\<rparr> else x) (queries d))
   \<and> (has_columns d ''queries'' [''feedback_rating'', ''email'', ''timestamp''] \<and> fits_int64 r
        \<and> (\<exists>x \<in> set (queries d). q_email x = e \<and> q_timestamp x = ts) \<and> \<not> (1 \<le> r \<and> r \<le> 5)
        \<longrightarrow> \<not> ratings_in_range (store (update_feedback_rating None r e ts d)))
   \<and> (has_columns d ''queries'' queries_columns
        \<and> filter (same_query e' q ts') (queries d) = []
        \<and> u \<notin> set (map q_query_id (queries d)) \<and> binds fr
        \<longrightarrow> queries (store (save_query None fi u e' nm pt q resp ts' fr d)) = queries d @
              [\<lparr>q_query_id = u, q_email = e', q_name = nm,
                q_project_title = (if \<not> truthy pt
                   then or_else (get_project_title_for_student fi e' d) ''No Project Assigned''
                   else the pt),
                q_question = q, q_response = resp, q_timestamp = ts', q_feedback_rating = fr\<rparr>])
   \<and> (has_columns d ''queries'' queries_columns
        \<and> filter (same_query e' q ts') (queries d) = []
        \<and> u \<notin> set (map q_query_id (queries d)) \<and> binds fr \<and> \<not> rating_ok fr
        \<longrightarrow> \<not> ratings_in_range (store (save_query None fi u e' nm pt q resp ts' fr d)))
   \<and> (\<not> fits_int64 big \<longrightarrow> store (update_feedback_rating fault big e ts d) = d)
   \<and> (\<not> binds fbig \<longrightarrow> store (save_query fault fi u e' nm pt q resp ts' fbig d) = d)
   \<and> (has_columns d ''queries'' queries_columns
        \<and> filter (same_query e' q ts') (queries d) = [] \<and> \<not> binds fbig
        \<longrightarrow> save_query None fi u e' nm pt q resp ts' fbig d
            = \<lparr>returned = Inl (OverflowError int_too_large), st_error = [], store = d\<rparr>)"
proof (intro conjI impI)
  assume "reachable_when rating_ok d"
  then show "ratings_in_range d" by (rule ratings_in_range_reachable)
next
  assume "has_columns d ''queries'' [''feedback_rating'', ''email'', ''timestamp''] \<and> fits_int64 r"
  then show "queries (store (update_feedback_rating None r e ts d))
            = map (\<lambda>x. if q_email x = e \<and> q_timestamp x = ts
                        then x\<lparr>q_feedback_rating := Some r\<rparr> else x) (queries d)"
    by (simp add: update_feedback_rating_stores)
next
  assume a: "has_columns d ''queries'' [''feedback_rating'', ''email'', ''timestamp''] \<and> fits_int64 r
        \<and> (\<exists>x \<in> set (queries d). q_email x = e \<and> q_timestamp x = ts) \<and> \<not> (1 \<le> r \<and> r \<le> 5)"
  then obtain x where x: "x \<in> set (queries d)" "q_email x = e" "q_timestamp x = ts" by blast
  from a have "queries (store (update_feedback_rating None r e ts d))
            = map (\<lambda>x. if q_email x = e \<and> q_timestamp x = ts
                        then x\<lparr>q_feedback_rating := Some r\<rparr> else x) (queries d)"
    by (simp add: update_feedback_rating_stores)
  then have mem: "x\<lparr>q_feedback_rating := Some r\<rparr>
      \<in> set (queries (store (update_feedback_rating None r e ts d)))"
    using x by force
  show "\<not> ratings_in_range (store (update_feedback_rating None r e ts d))"
  proof
    assume "ratings_in_range (store (update_feedback_rating None r e ts d))"
    then have "\<forall>y \<in> set (queries (store (update_feedback_rating None r e ts d))).
        rating_ok (q_feedback_rating y)"
      by (simp add: ratings_in_range_def list_all_iff)
    from bspec[OF this mem] have "rating_ok (Some r)" by simp
    with a show False by (simp add: rating_ok_def)
  qed
next
  assume "has_columns d ''queries'' queries_columns
        \<and> filter (same_query e' q ts') (queries d) = []
        \<and> u \<notin> set (map q_query_id (queries d)) \<and> binds fr"
  then show "queries (store (save_query None fi u e' nm pt q resp ts' fr d)) = queries d @
              [\<lparr>q_query_id = u, q_email = e', q_name = nm,
                q_project_title = (if \<not> truthy pt
                   then or_else (get_project_title_for_student fi e' d) ''No Project Assigned''
                   else the pt),
                q_question = q, q_response = resp, q_timestamp = ts', q_feedback_rating = fr\<rparr>]"
    by (simp add: save_query_stores)
next
  assume a: "has_columns d ''queries'' queries_columns
        \<and> filter (same_query e' q ts') (queries d) = []
        \<and> u \<notin> set (map q_query_id (queries d)) \<and> binds fr \<and> \<not> rating_ok fr"
  then have "queries (store (save_query None fi u e' nm pt q resp ts' fr d)) = queries d @
              [\<lparr>q_query_id = u, q_email = e', q_name = nm,
                q_project_title = (if \<not> truthy pt
                   then or_else (get_project_title_for_student fi e' d) ''No Project Assigned''
                   else the pt),
                q_question = q, q_response = resp, q_timestamp = ts', q_feedback_rating = fr\<rparr>]"
    by (simp add: save_query_stores)
  with a show "\<not> ratings_in_range (store (save_query None fi u e' nm pt q resp ts' fr d))"
    by (simp add: ratings_in_range_def)
next
  assume "\<not> fits_int64 big"
  then show "store (update_feedback_rating fault big e ts d) = d"
    by (rule update_feedback_rating_overflow)
next
  assume "\<not> binds fbig"
  then show "store (save_query fault fi u e' nm pt q resp ts' fbig d) = d"
    by (rule save_query_overflow)
next
  assume "has_columns d ''queries'' queries_columns
        \<and> filter (same_query e' q ts') (queries d) = [] \<and> \<not> binds fbig"
  then show "save_query None fi u e' nm pt q resp ts' fbig d
            = \<lparr>returned = Inl (OverflowError int_too_large), st_error = [], store = d\<rparr>"
    by (simp add: save_query_raises)
qed

lemma db1_reachable_in_range: "reachable_when rating_ok db1"
  unfolding db1_def db0_def
  by (intro reachable_when.intros) (simp add: rating_ok_def)

text \<open>
  On \<open>db1\<close>, which is reached with absent ratings only: the rating 7 written by the
  update and by \<^verbatim>\<open>save_query\<close>, and the rating \<open>2^63\<close> given to both.
\<close>

theorem rating_range_depends_on_callers_witness:
  "ratings_in_range db1
   \<and> map q_feedback_rating (queries (store
        (update_feedback_rating None 7 ''x@y.com'' ''2025-06-01 10:00:00'' db1))) = [Some 7]
   \<and> \<not> ratings_in_range (store
        (update_feedback_rating None 7 ''x@y.com'' ''2025-06-01 10:00:00'' db1))
   \<and> map q_feedback_rating (queries (store
        (save_query None None ''q-2'' ''x@y.com'' ''Xavier'' (Some ''AI Tutor'') ''Another question''
           ''An answer.'' ''2025-06-02 10:00:00'' (Some 7) db1))) = [None, Some 7]
   \<and> \<not> ratings_in_range (store
        (save_query None None ''q-2'' ''x@y.com'' ''Xavier'' (Some ''AI Tutor'') ''Another question''
           ''An answer.'' ''2025-06-02 10:00:00'' (Some 7) db1))
   \<and> store (update_feedback_rating None 9223372036854775808 ''x@y.com'' ''2025-06-01 10:00:00'' db1)
       = db1
   \<and> save_query None None ''q-2'' ''x@y.com'' ''Xavier'' (Some ''AI Tutor'') ''Another question''
           ''An answer.'' ''2025-06-02 10:00:00'' (Some 9223372036854775808) db1
       = \<lparr>returned = Inl (OverflowError int_too_large), st_error = [], store = db1\<rparr>"
proof -
  have h1: "has_columns db1 ''queries'' [''feedback_rating'', ''email'', ''timestamp'']"
    by (simp add: db1_value has_columns_def column_defs)
  have h2: "has_columns db1 ''queries'' queries_columns"
    by (simp add: db1_value has_columns_def column_defs)
  have f: "fits_int64 7" "\<not> (1 \<le> (7::int) \<and> (7::int) \<le> 5)" "binds (Some 7)" "\<not> rating_ok (Some 7)"
    "\<not> fits_int64 9223372036854775808" "\<not> binds (Some 9223372036854775808)"
    by (simp_all add: fits_int64_def binds_def rating_ok_def)
  have m: "\<exists>x \<in> set (queries db1). q_email x = ''x@y.com'' \<and> q_timestamp x = ''2025-06-01 10:00:00''"
    by (simp add: db1_value)
  have n: "filter (same_query ''x@y.com'' ''Another question'' ''2025-06-02 10:00:00'') (queries db1) = []"
    "''q-2'' \<notin> set (map q_query_id (queries db1))"
    by (simp_all add: db1_value same_query_def)
  have q: "map q_feedback_rating (queries db1) = [None]"
    by (simp add: db1_value)
  show ?thesis
    using rating_range_depends_on_callers[of db1 7 "''x@y.com''" "''2025-06-01 10:00:00''"
        "''x@y.com''" "''Another question''" "''2025-06-02 10:00:00''" "''q-2''" "Some 7" None
        "''Xavier''" "Some ''AI Tutor''" "''An answer.''" 9223372036854775808 None
        "Some 9223372036854775808"]
      db1_reachable_in_range h1 h2 f m n q
    by (simp add: truthy_def db1_value)
qed


subsection \<open>What the caller learns of a storage error\<close>

lemma has_columns_rows [simp]:
  "has_columns (d\<lparr>users := us\<rparr>) t cols = has_columns d t cols"
  "has_columns (d\<lparr>projects := ps\<rparr>) t cols = has_columns d t cols"
  "has_columns (d\<lparr>queries := qs\<rparr>) t cols = has_columns d t cols"
  "has_columns (d\<lparr>student_project_mapping := ms\<rparr>) t cols = has_columns d t cols"
  "has_columns (d\<lparr>student_project_map := sm\<rparr>) t cols = has_columns d t cols"
  by (simp_all add: has_columns_def)




















subsection \<open>One row per question\<close>

lemma key_filter:
  "distinct (map query_key xs) \<Longrightarrow> length (filter (same_query e q ts) xs) \<le> 1"
proof (induction xs)
  case Nil
  show ?case by simp
next
  case (Cons x xs)
  show ?case
  proof (cases "same_query e q ts x")
    case True
    then have k: "query_key x = (e, q, ts)" by (simp add: same_query_def query_key_def)
    have "filter (same_query e q ts) xs = []"
    proof (rule ccontr)
      assume "filter (same_query e q ts) xs \<noteq> []"
      then obtain y where "y \<in> set xs" "same_query e q ts y"
        by (auto simp: filter_empty_conv)
      then have "query_key x \<in> set (map query_key xs)"
        using k by (force simp: same_query_def query_key_def)
      with Cons.prems show False by simp
    qed
    with True show ?thesis by simp
  next
    case False
    with Cons show ?thesis by simp
  qed
qed

lemma queries_keyed: "reachable_when ok d \<Longrightarrow> distinct (map query_key (queries d))"
proof (induction rule: reachable_when.induct)
  case new_file
  show ?case by (simp add: empty_db_def)
next
  case (by_init_db d fault h)
  with init_db_queries[of fault h d] show ?case by auto
next
  case (by_save_user d fault h e nm pw rl)
  then show ?case by (simp add: save_user_queries)
next
  case (by_reset_user_password d fault h e pw)
  then show ?case by (simp add: reset_user_password_queries)
next
  case (by_save_query d fr fault fi u e nm pt q resp ts)
  with save_query_queries[of fault fi u e nm pt q resp ts fr d] show ?case
    by (auto simp: query_key_def same_query_def filter_empty_conv)
next
  case (by_save_project d fault now u e pt)
  then show ?case by (simp add: save_project_queries)
next
  case (by_delete_user d fault e)
  with delete_user_queries[of fault e d] show ?case
    by (auto simp: distinct_map_filter)
next
  case (by_bulk_register_users d fault hs f)
  then show ?case by (simp add: bulk_register_users_queries)
next
  case (by_save_student_project_mapping d fault now us g)
  then show ?case by (simp add: save_student_project_mapping_queries)
next
  case (by_update_feedback_rating d r fault e ts)
  have "query_key \<circ> (\<lambda>x. if q_email x = e \<and> q_timestamp x = ts
          then x\<lparr>q_feedback_rating := Some r\<rparr> else x) = query_key"
    by (rule ext) (simp add: query_key_def)
  with by_update_feedback_rating update_feedback_rating_queries[of fault r e ts d] show ?case
    by auto
qed

lemma save_query_schema: "schema (store (save_query fault fi u e nm pt q resp ts fr d)) = schema d"
  by (cases fault)
     (auto simp: save_query_def save_query_failed_def execute_select_def execute_dml_def
        commit_def insert_query_def Let_def split: option.splits sum.splits if_splits)

lemma save_query_first:
  assumes "st_error (save_query fault fi u e nm pt q resp ts fr d) = []"
    and "returned (save_query fault fi u e nm pt q resp ts fr d) = Inr None"
  shows "has_columns d ''queries'' [''email'', ''question'', ''timestamp'']"
    and "queries (store (save_query fault fi u e nm pt q resp ts fr d))
       = (if filter (same_query e q ts) (queries d) = []
          then queries d @
            [\<lparr>q_query_id = u, q_email = e, q_name = nm,
              q_project_title = (if \<not> truthy pt
                 then or_else (get_project_title_for_student fi e d) ''No Project Assigned''
                 else the pt),
              q_question = q, q_response = resp, q_timestamp = ts, q_feedback_rating = fr\<rparr>]
          else queries d)"
  using assms
  by (cases fault;
      auto simp: save_query_def save_query_failed_def execute_select_def execute_dml_def
        commit_def insert_query_def fetchone_def select_same_query_def Let_def
        split: sum.splits if_splits list.splits)+

lemma save_query_again:
  assumes "has_columns d ''queries'' [''email'', ''question'', ''timestamp'']"
    and "filter (same_query e q ts) (queries d) \<noteq> []"
  shows "store (save_query fault fi u e nm pt q resp ts fr d) = d"
    and "fault = None \<Longrightarrow> save_query fault fi u e nm pt q resp ts fr d
           = \<lparr>returned = Inr None, st_error = [], store = d\<rparr>"
  using assms
  by (cases fault;
      auto simp: save_query_def save_query_failed_def execute_select_def
        fetchone_def select_same_query_def Let_def split: list.splits)+

text \<open>
  Claim C1: \<^verbatim>\<open>save_query\<close> called twice with the same email, question and time stamp
  leaves exactly one row of that triple. Let \<open>d\<close> be a state the program can reach, and
  let the first call return without a notice. Then a second call with that triple,
  whatever its other arguments and whatever its connection does, leaves the database
  as the first call left it; with a connection that opens it returns \<^verbatim>\<open>None\<close> and shows
  nothing. After it the table holds exactly one row of the triple: the row that was
  there before the first call, or else the row the first call wrote, with the response
  and the rating of the first call.
\<close>

theorem save_query_twice_one_row:
  assumes "reachable d"
    and "st_error (save_query f1 fi1 u1 e nm1 pt1 q resp1 ts fr1 d) = []"
    and "returned (save_query f1 fi1 u1 e nm1 pt1 q resp1 ts fr1 d) = Inr None"
  shows "store (save_query f2 fi2 u2 e nm2 pt2 q resp2 ts fr2
            (store (save_query f1 fi1 u1 e nm1 pt1 q resp1 ts fr1 d)))
          = store (save_query f1 fi1 u1 e nm1 pt1 q resp1 ts fr1 d)
       \<and> save_query None fi2 u2 e nm2 pt2 q resp2 ts fr2
            (store (save_query f1 fi1 u1 e nm1 pt1 q resp1 ts fr1 d))
          = \<lparr>returned = Inr None, st_error = [],
             store = store (save_query f1 fi1 u1 e nm1 pt1 q resp1 ts fr1 d)\<rparr>
       \<and> length (filter (same_query e q ts) (queries (store
            (save_query f2 fi2 u2 e nm2 pt2 q resp2 ts fr2
              (store (save_query f1 fi1 u1 e nm1 pt1 q resp1 ts fr1 d)))))) = 1
       \<and> filter (same_query e q ts) (queries (store
            (save_query f2 fi2 u2 e nm2 pt2 q resp2 ts fr2
              (store (save_query f1 fi1 u1 e nm1 pt1 q resp1 ts fr1 d)))))
          = (if filter (same_query e q ts) (queries d) = []
             then [\<lparr>q_query_id = u1, q_email = e, q_name = nm1,
                     q_project_title = (if \<not> truthy pt1
                       then or_else (get_project_title_for_student fi1 e d) ''No Project Assigned''
                       else the pt1),
                     q_question = q, q_response = resp1, q_timestamp = ts,
                     q_feedback_rating = fr1\<rparr>]
             else filter (same_query e q ts) (queries d))"
proof -
  let ?r1 = "save_query f1 fi1 u1 e nm1 pt1 q resp1 ts fr1 d"
  let ?row = "\<lparr>q_query_id = u1, q_email = e, q_name = nm1,
                     q_project_title = (if \<not> truthy pt1
                       then or_else (get_project_title_for_student fi1 e d) ''No Project Assigned''
                       else the pt1),
                     q_question = q, q_response = resp1, q_timestamp = ts,
                     q_feedback_rating = fr1\<rparr>"
  note first = save_query_first[OF assms(2,3)]
  have hc: "has_columns (store ?r1) ''queries'' [''email'', ''question'', ''timestamp'']"
    using first(1) by (simp add: has_columns_schema_cong[OF save_query_schema])
  have le: "length (filter (same_query e q ts) (queries d)) \<le> 1"
    by (rule key_filter[OF queries_keyed[OF assms(1)]])
  have f1: "filter (same_query e q ts) (queries (store ?r1))
      = (if filter (same_query e q ts) (queries d) = [] then [?row]
         else filter (same_query e q ts) (queries d))"
    by (simp add: first(2) same_query_def)
  then have ne: "filter (same_query e q ts) (queries (store ?r1)) \<noteq> []"
    by (simp split: if_splits)
  have one: "length (filter (same_query e q ts) (queries (store ?r1))) = 1"
  proof (cases "filter (same_query e q ts) (queries d) = []")
    case True
    with f1 show ?thesis by simp
  next
    case False
    then have "length (filter (same_query e q ts) (queries d)) \<noteq> 0" by simp
    with le have "length (filter (same_query e q ts) (queries d)) = 1" by linarith
    with f1 False show ?thesis by simp
  qed
  note again = save_query_again[OF hc ne]
  show ?thesis
    using again(1)[of f2 fi2 u2 nm2 pt2 resp2 fr2] again(2)[of None fi2 u2 nm2 pt2 resp2 fr2]
      one f1
    by simp
qed

lemma db1_reachable: "reachable db1"
  unfolding db1_def db0_def by (intro reachable_when.intros) simp_all

text \<open>
  On \<open>db1\<close>: a new question asked twice, the second time with another name, answer and
  rating; and the question that \<open>db1\<close> holds already, asked twice more.
\<close>

theorem save_query_twice_one_row_witness:
  "store (save_query None None ''q-3'' ''x@y.com'' ''Xavier X.'' None ''Another question''
       ''A different answer.'' ''2025-06-02 10:00:00'' (Some 1)
       (store (save_query None None ''q-2'' ''x@y.com'' ''Xavier'' (Some ''AI Tutor'')
          ''Another question'' ''An answer.'' ''2025-06-02 10:00:00'' (Some 4) db1)))
     = store (save_query None None ''q-2'' ''x@y.com'' ''Xavier'' (Some ''AI Tutor'')
          ''Another question'' ''An answer.'' ''2025-06-02 10:00:00'' (Some 4) db1)
   \<and> filter (same_query ''x@y.com'' ''Another question'' ''2025-06-02 10:00:00'')
       (queries (store (save_query None None ''q-3'' ''x@y.com'' ''Xavier X.'' None
          ''Another question'' ''A different answer.'' ''2025-06-02 10:00:00'' (Some 1)
          (store (save_query None None ''q-2'' ''x@y.com'' ''Xavier'' (Some ''AI Tutor'')
             ''Another question'' ''An answer.'' ''2025-06-02 10:00:00'' (Some 4) db1)))))
     = [\<lparr>q_query_id = ''q-2'', q_email = ''x@y.com'', q_name = ''Xavier'',
         q_project_title = ''AI Tutor'', q_question = ''Another question'',
         q_response = ''An answer.'', q_timestamp = ''2025-06-02 10:00:00'',
         q_feedback_rating = Some 4\<rparr>]
   \<and> store (save_query None None ''q-3'' ''x@y.com'' ''Xavier X.'' None
          ''How do I write my resume?'' ''A different answer.'' ''2025-06-01 10:00:00'' (Some 1)
          (store (save_query None None ''q-2'' ''x@y.com'' ''Xavier'' (Some ''AI Tutor'')
             ''How do I write my resume?'' ''An answer.'' ''2025-06-01 10:00:00'' (Some 4) db1)))
     = db1
   \<and> length (filter (same_query ''x@y.com'' ''How do I write my resume?'' ''2025-06-01 10:00:00'')
       (queries db1)) = 1"
proof -
  have a: "st_error (save_query None None ''q-2'' ''x@y.com'' ''Xavier'' (Some ''AI Tutor'')
          ''Another question'' ''An answer.'' ''2025-06-02 10:00:00'' (Some 4) db1) = []"
    "returned (save_query None None ''q-2'' ''x@y.com'' ''Xavier'' (Some ''AI Tutor'')
          ''Another question'' ''An answer.'' ''2025-06-02 10:00:00'' (Some 4) db1) = Inr None"
    by (simp_all add: db1_value save_query_def truthy_def stmt_defs exec_defs column_defs)
  have b: "save_query None None ''q-2'' ''x@y.com'' ''Xavier'' (Some ''AI Tutor'')
          ''How do I write my resume?'' ''An answer.'' ''2025-06-01 10:00:00'' (Some 4) db1
       = \<lparr>returned = Inr None, st_error = [], store = db1\<rparr>"
    by (simp add: db1_value save_query_def truthy_def stmt_defs exec_defs column_defs)
  have b': "st_error (save_query None None ''q-2'' ''x@y.com'' ''Xavier'' (Some ''AI Tutor'')
          ''How do I write my resume?'' ''An answer.'' ''2025-06-01 10:00:00'' (Some 4) db1) = []"
    "returned (save_query None None ''q-2'' ''x@y.com'' ''Xavier'' (Some ''AI Tutor'')
          ''How do I write my resume?'' ''An answer.'' ''2025-06-01 10:00:00'' (Some 4) db1) = Inr None"
    by (simp_all add: b)
  have n: "filter (same_query ''x@y.com'' ''Another question'' ''2025-06-02 10:00:00'') (queries db1) = []"
    by (simp add: db1_value same_query_def)
  have t: "truthy (Some ''AI Tutor'')"
    by (simp add: truthy_def)
  note A = save_query_twice_one_row[OF db1_reachable a, of None None "''q-3''" "''Xavier X.''" None
      "''A different answer.''" "Some 1"]
  note B = save_query_twice_one_row[OF db1_reachable b', of None None "''q-3''" "''Xavier X.''" None
      "''A different answer.''" "Some 1"]
  have c1: "store (save_query None None ''q-3'' ''x@y.com'' ''Xavier X.'' None ''Another question''
       ''A different answer.'' ''2025-06-02 10:00:00'' (Some 1)
       (store (save_query None None ''q-2'' ''x@y.com'' ''Xavier'' (Some ''AI Tutor'')
          ''Another question'' ''An answer.'' ''2025-06-02 10:00:00'' (Some 4) db1)))
     = store (save_query None None ''q-2'' ''x@y.com'' ''Xavier'' (Some ''AI Tutor'')
          ''Another question'' ''An answer.'' ''2025-06-02 10:00:00'' (Some 4) db1)"
    using A by (elim conjE)
  have c2: "filter (same_query ''x@y.com'' ''Another question'' ''2025-06-02 10:00:00'')
       (queries (store (save_query None None ''q-3'' ''x@y.com'' ''Xavier X.'' None
          ''Another question'' ''A different answer.'' ''2025-06-02 10:00:00'' (Some 1)
          (store (save_query None None ''q-2'' ''x@y.com'' ''Xavier'' (Some ''AI Tutor'')
             ''Another question'' ''An answer.'' ''2025-06-02 10:00:00'' (Some 4) db1)))))
     = [\<lparr>q_query_id = ''q-2'', q_email = ''x@y.com'', q_name = ''Xavier'',
         q_project_title = ''AI Tutor'', q_question = ''Another question'',
         q_response = ''An answer.'', q_timestamp = ''2025-06-02 10:00:00'',
         q_feedback_rating = Some 4\<rparr>]"
    using A n t by (elim conjE) simp
  have c3: "store (save_query None None ''q-3'' ''x@y.com'' ''Xavier X.'' None
          ''How do I write my resume?'' ''A different answer.'' ''2025-06-01 10:00:00'' (Some 1)
          (store (save_query None None ''q-2'' ''x@y.com'' ''Xavier'' (Some ''AI Tutor'')
             ''How do I write my resume?'' ''An answer.'' ''2025-06-01 10:00:00'' (Some 4) db1)))
     = db1"
    using B by (elim conjE) (simp add: b)
  have c4: "length (filter (same_query ''x@y.com'' ''How do I write my resume?'' ''2025-06-01 10:00:00'')
       (queries db1)) = 1"
    using B by (elim conjE) (simp add: b)
  show ?thesis
    by (intro conjI) (fact c1 c2 c3 c4)+
qed


end
